theory Spec2Isabelle
  imports Complex_Main
begin

section \<open>Reeds-Shepp path search of \<open>modules/planning/open_space/reeds_shepp_path.cc\<close>\<close>

text \<open>
  The C++ \<open>double\<close> is modelled by \<^typ>\<open>real\<close>: rounding, NaN, infinities and signed
  zeros are not represented, so every statement below is about the exact arithmetic the code
  approximates. \<open>std::sin\<close>, \<open>std::cos\<close>, \<open>std::tan\<close>, \<open>std::sqrt\<close>,
  \<open>std::asin\<close> and \<open>std::acos\<close> are the functions of the same name of HOL.
  A vector is a list; \<open>at\<close> on a vector throws \<open>std::out_of_range\<close>, which is a
  value of the type \<open>error\<close>, and so is the undefined behaviour of \<open>back\<close> and
  \<open>pop_back\<close> on an empty vector.
\<close>

subsection \<open>Data\<close>

datatype error = OutOfRange | UndefinedBehaviour

text \<open>
  The size of a pointer decides what \<open>sizeof(lengths) / sizeof(lengths[0])\<close> is in
  \<open>SetRSP\<close>, where \<open>lengths\<close> is a parameter of type \<open>double[]\<close>, that is, a
  \<open>double*\<close>.
\<close>

datatype data_model = ILP32 | LP64

fun sizeof_double_ptr :: "data_model \<Rightarrow> nat" where
  "sizeof_double_ptr ILP32 = 4"
| "sizeof_double_ptr LP64 = 8"

definition sizeof_double :: nat where
  "sizeof_double = 8"

text \<open>
  The object: \<open>max_kappa_\<close>, the step size read from \<open>open_space_conf_\<close>, and the
  data model of the platform the code is compiled for.
\<close>

record ReedShepp =
  max_kappa :: real
  step_size :: real
  platform :: data_model

text \<open>\<open>Node3d\<close>, through its three read accessors.\<close>

record Node3d =
  GetX :: real
  GetY :: real
  GetPhi :: real

text \<open>
  \<open>RSPParam\<close> and \<open>ReedSheppPath\<close> are declared in the header. The fields
  \<open>t\<close>, \<open>u\<close>, \<open>v\<close> of the first and \<open>x\<close>, \<open>y\<close>, \<open>phi\<close>, \<open>gear\<close> of the
  second carry a prefix here, since a record field is a constant of the theory.
\<close>

record RSPParam =
  flag :: bool
  param_t :: real
  param_u :: real
  param_v :: real

text \<open>
  Modelled from the spec: the default-constructed \<open>RSPParam\<close> (the header is not part of
  the sources), "all outputs left at their default (zero)" with the validity flag false.
\<close>

definition RSPParam_default :: RSPParam where
  "RSPParam_default = \<lparr>flag = False, param_t = 0, param_u = 0, param_v = 0\<rparr>"

record ReedSheppPath =
  segs_lengths :: "real list"
  segs_types :: string
  total_length :: real
  path_x :: "real list"
  path_y :: "real list"
  path_phi :: "real list"
  path_gear :: "bool list"

subsection \<open>Library functions\<close>

text \<open>
  \<open>std::atan2\<close> on the reals: the angle of the point \<open>(x, y)\<close> in \<open>(-\<pi>, \<pi>]\<close>,
  and \<open>0\<close> at the origin.
\<close>

definition atan2 :: "real \<Rightarrow> real \<Rightarrow> real" where
  "atan2 y x =
     (if 0 < x then arctan (y / x)
      else if x < 0 then (if 0 \<le> y then arctan (y / x) + pi else arctan (y / x) - pi)
      else if 0 < y then pi / 2
      else if y < 0 then - (pi / 2)
      else 0)"

text \<open>
  Modelled from the spec: \<open>common::math::NormalizeAngle\<close> (not part of the sources),
  which "returns an angle in a fixed canonical half-open range". The range is \<open>[-\<pi>, \<pi>)\<close>:
  the angle plus \<open>\<pi>\<close> is reduced modulo \<open>2\<pi>\<close> to a non-negative remainder, and \<open>\<pi>\<close>
  is subtracted again.
\<close>

definition NormalizeAngle :: "real \<Rightarrow> real" where
  "NormalizeAngle angle = angle - 2 * pi * of_int \<lfloor>(angle + pi) / (2 * pi)\<rfloor>"

text \<open>
  Modelled from the spec: \<open>common::math::Cartesian2Polar\<close> (not part of the sources),
  the "standard polar conversion" to a radius and an angle.
\<close>

definition Cartesian2Polar :: "real \<Rightarrow> real \<Rightarrow> real \<times> real" where
  "Cartesian2Polar x y = (sqrt (x * x + y * y), atan2 y x)"

subsection \<open>The two-angle solver\<close>

definition calc_tau_omega :: "real \<Rightarrow> real \<Rightarrow> real \<Rightarrow> real \<Rightarrow> real \<Rightarrow> real \<times> real" where
  "calc_tau_omega u v xi eta phi =
     (let delta = NormalizeAngle (u - v);
          A = sin u - sin delta;
          B = cos u - cos delta - 1;
          t1 = atan2 (eta * A - xi * B) (xi * A + eta * B);
          t2 = 2 * (cos delta - cos v - cos u) + 3;
          tau = (if t2 < 0 then NormalizeAngle (t1 + pi) else NormalizeAngle t1);
          omega = NormalizeAngle (tau - u + v - phi)
      in (tau, omega))"

subsection \<open>Primitive solvers\<close>

text \<open>
  Each solver writes through \<open>RSPParam* param\<close> only when its validity test passes; the
  model takes the parameter block and returns it, changed or not.
\<close>

definition LSL :: "real \<Rightarrow> real \<Rightarrow> real \<Rightarrow> RSPParam \<Rightarrow> RSPParam" where
  "LSL x y phi param =
     (let polar = Cartesian2Polar (x - sin phi) (y - 1 + cos phi);
          u = fst polar;
          t = snd polar
      in if 0 \<le> t then
           (let v = NormalizeAngle (phi - t)
            in if 0 \<le> v then param\<lparr>flag := True, param_u := u, param_t := t, param_v := v\<rparr>
               else param)
         else param)"

definition LSR :: "real \<Rightarrow> real \<Rightarrow> real \<Rightarrow> RSPParam \<Rightarrow> RSPParam" where
  "LSR x y phi param =
     (let polar = Cartesian2Polar (x + sin phi) (y - 1 - cos phi);
          u1 = fst polar * fst polar;
          t1 = snd polar
      in if 4 \<le> u1 then
           (let u = sqrt (u1 - 4);
                theta = atan2 2 u;
                t = NormalizeAngle (t1 + theta);
                v = NormalizeAngle (t - phi)
            in if 0 \<le> t \<and> 0 \<le> v
               then param\<lparr>flag := True, param_u := u, param_t := t, param_v := v\<rparr>
               else param)
         else param)"

definition LRL :: "real \<Rightarrow> real \<Rightarrow> real \<Rightarrow> RSPParam \<Rightarrow> RSPParam" where
  "LRL x y phi param =
     (let polar = Cartesian2Polar (x - sin phi) (y - 1 + cos phi);
          u1 = fst polar;
          t1 = snd polar
      in if u1 \<le> 4 then
           (let u = - 2 * arcsin (0.25 * u1);
                t = NormalizeAngle (t1 + 0.5 * u + pi);
                v = NormalizeAngle (phi - t + u)
            in if 0 \<le> t \<and> u \<le> 0
               then param\<lparr>flag := True, param_u := u, param_t := t, param_v := v\<rparr>
               else param)
         else param)"

definition SLS :: "real \<Rightarrow> real \<Rightarrow> real \<Rightarrow> RSPParam \<Rightarrow> RSPParam" where
  "SLS x y phi param =
     (let phi_mod = NormalizeAngle phi
      in if 0 < y \<and> 0 < phi_mod \<and> phi_mod < pi * 0.99 then
           (let xd = - y / tan phi_mod + x;
                t = xd - tan (phi_mod / 2);
                u = phi_mod;
                v = sqrt ((x - xd) * (x - xd) + y * y) - tan (phi_mod / 2)
            in param\<lparr>flag := True, param_u := u, param_t := t, param_v := v\<rparr>)
         else if y < 0 \<and> 0 < phi_mod \<and> phi_mod < pi * 0.99 then
           (let xd = - y / tan phi_mod + x;
                t = xd - tan (phi_mod / 2);
                u = phi_mod;
                v = - sqrt ((x - xd) * (x - xd) + y * y) - tan (phi_mod / 2)
            in param\<lparr>flag := True, param_u := u, param_t := t, param_v := v\<rparr>)
         else param)"

definition LRLRn :: "real \<Rightarrow> real \<Rightarrow> real \<Rightarrow> RSPParam \<Rightarrow> RSPParam" where
  "LRLRn x y phi param =
     (let xi = x + sin phi;
          eta = y - 1 - cos phi;
          rho = 0.25 * (2 + sqrt (xi * xi + eta * eta));
          v = 0;
          t = 0
      in if rho \<le> 1 then
           (let u = arccos rho;
                tau_omega = calc_tau_omega u v xi eta phi
            in if 0 \<le> fst tau_omega \<and> snd tau_omega \<le> 0
               then param\<lparr>flag := True, param_u := u, param_t := t, param_v := v\<rparr>
               else param)
         else param)"

definition LRLRp :: "real \<Rightarrow> real \<Rightarrow> real \<Rightarrow> RSPParam \<Rightarrow> RSPParam" where
  "LRLRp x y phi param =
     (let xi = x + sin phi;
          eta = y - 1 - cos phi;
          rho = (20 - xi * xi - eta * eta) / 16;
          v = 0;
          t = 0
      in if rho \<le> 1 \<and> 0 \<le> rho then
           (let u = - arccos rho
            in if - 0.5 * pi \<le> u then
                 (let tau_omega = calc_tau_omega u v xi eta phi
                  in if 0 \<le> fst tau_omega \<and> 0 \<le> snd tau_omega
                     then param\<lparr>flag := True, param_u := u, param_t := t, param_v := v\<rparr>
                     else param)
               else param)
         else param)"

definition LRSR :: "real \<Rightarrow> real \<Rightarrow> real \<Rightarrow> RSPParam \<Rightarrow> RSPParam" where
  "LRSR x y phi param =
     (let xi = x + sin phi;
          eta = y - 1 - cos phi;
          polar = Cartesian2Polar (- eta) xi;
          rho = fst polar;
          theta = snd polar
      in if 2 \<le> rho then
           (let t = theta;
                u = 2 - rho;
                v = NormalizeAngle (t + 0.5 * pi - phi)
            in if 0 \<le> t \<and> u \<le> 0 \<and> v \<le> 0
               then param\<lparr>flag := True, param_u := u, param_t := t, param_v := v\<rparr>
               else param)
         else param)"

definition LRSL :: "real \<Rightarrow> real \<Rightarrow> real \<Rightarrow> RSPParam \<Rightarrow> RSPParam" where
  "LRSL x y phi param =
     (let xi = x - sin phi;
          eta = y - 1 + cos phi;
          polar = Cartesian2Polar xi eta;
          rho = fst polar;
          theta = snd polar
      in if 2 \<le> rho then
           (let r = sqrt (rho * rho - 4);
                u = 2 - r;
                t = NormalizeAngle (theta + atan2 r (- 2));
                v = NormalizeAngle (phi - 0.5 * pi - t)
            in if 0 \<le> t \<and> u \<le> 0 \<and> v \<le> 0
               then param\<lparr>flag := True, param_u := u, param_t := t, param_v := v\<rparr>
               else param)
         else param)"

definition LRSLR :: "real \<Rightarrow> real \<Rightarrow> real \<Rightarrow> RSPParam \<Rightarrow> RSPParam" where
  "LRSLR x y phi param =
     (let xi = x + sin phi;
          eta = y - 1 - cos phi;
          polar = Cartesian2Polar xi eta;
          rho = fst polar
      in if 2 \<le> rho then
           (let u = 4 - sqrt (rho * rho - 4)
            in if u \<le> 0 then
                 (let t = NormalizeAngle
                            (atan2 ((4 - u) * xi - 2 * eta) (- 2 * xi + (u - 4) * eta));
                      v = NormalizeAngle (t - phi)
                  in if 0 \<le> t \<and> 0 \<le> v
                     then param\<lparr>flag := True, param_u := u, param_t := t, param_v := v\<rparr>
                     else param)
               else param)
         else param)"

subsection \<open>Path assembler\<close>

text \<open>
  \<open>lengths_size\<close> is the quotient of two \<open>sizeof\<close>s, the first one of a pointer. The two
  vectors are built from the first \<open>lengths_size\<close> elements of the arrays, and the loop adds
  up the same elements. No data model gives a quotient above one, and every caller passes at
  least three elements, so \<^const>\<open>take\<close> reads inside the arrays.
\<close>

definition SetRSP ::
  "ReedShepp \<Rightarrow> real list \<Rightarrow> string \<Rightarrow> ReedSheppPath list \<Rightarrow> bool \<times> ReedSheppPath list" where
  "SetRSP rs lengths types all_possible_paths =
     (let lengths_size = sizeof_double_ptr (platform rs) div sizeof_double;
          length_vec = take lengths_size lengths;
          type_vec = take lengths_size types;
          sum = foldl (\<lambda>s l. s + \<bar>l\<bar>) 0 (take lengths_size lengths);
          path = \<lparr>segs_lengths = length_vec, segs_types = type_vec, total_length = sum,
                  path_x = [], path_y = [], path_phi = [], path_gear = []\<rparr>
      in if total_length path < 0 then (False, all_possible_paths)
         else (True, all_possible_paths @ [path]))"

subsection \<open>Family orchestrators\<close>

text \<open>
  Every orchestrator is a sequence of blocks of one shape: call a solver on a fresh
  parameter block, build the array of lengths and the type string, and
  \<open>if (param.flag && !SetRSP(lengths, types, all_possible_paths)) return false;\<close>.
  A block is the triple of the parameter block, the array and the string; the solvers have
  no effect, so the triples of an orchestrator are listed in the order of the source and
  \<open>run_blocks\<close> runs the \<open>if\<close> of each in turn.
\<close>

type_synonym block = "RSPParam \<times> real list \<times> string"

fun run_blocks ::
  "ReedShepp \<Rightarrow> block list \<Rightarrow> ReedSheppPath list \<Rightarrow> bool \<times> ReedSheppPath list" where
  "run_blocks rs [] all_possible_paths = (True, all_possible_paths)"
| "run_blocks rs ((param, lengths, types) # rest) all_possible_paths =
     (if flag param then
        (case SetRSP rs lengths types all_possible_paths of
           (False, paths) \<Rightarrow> (False, paths)
         | (True, paths) \<Rightarrow> run_blocks rs rest paths)
      else run_blocks rs rest all_possible_paths)"

definition SCS_blocks :: "real \<Rightarrow> real \<Rightarrow> real \<Rightarrow> block list" where
  "SCS_blocks x y phi =
     [(let SLS_param = SLS x y phi RSPParam_default
       in (SLS_param, [param_t SLS_param, param_u SLS_param, param_v SLS_param], ''SLS'')),
      (let SRS_param = SLS x (- y) (- phi) RSPParam_default
       in (SRS_param, [param_t SRS_param, param_u SRS_param, param_v SRS_param], ''SRS''))]"

definition SCS ::
  "ReedShepp \<Rightarrow> real \<Rightarrow> real \<Rightarrow> real \<Rightarrow> ReedSheppPath list \<Rightarrow> bool \<times> ReedSheppPath list" where
  "SCS rs x y phi all_possible_paths = run_blocks rs (SCS_blocks x y phi) all_possible_paths"

definition CSC_blocks :: "real \<Rightarrow> real \<Rightarrow> real \<Rightarrow> block list" where
  "CSC_blocks x y phi =
     [(let LSL1_param = LSL x y phi RSPParam_default
       in (LSL1_param, [param_t LSL1_param, param_u LSL1_param, param_v LSL1_param], ''LSL'')),
      (let LSL2_param = LSL (- x) y (- phi) RSPParam_default
       in (LSL2_param,
           [- param_t LSL2_param, - param_u LSL2_param, - param_v LSL2_param], ''LSL'')),
      (let LSL3_param = LSL x (- y) (- phi) RSPParam_default
       in (LSL3_param, [param_t LSL3_param, param_u LSL3_param, param_v LSL3_param], ''RSR'')),
      (let LSL4_param = LSL (- x) (- y) phi RSPParam_default
       in (LSL4_param,
           [- param_t LSL4_param, - param_u LSL4_param, - param_v LSL4_param], ''RSR'')),
      (let LSR1_param = LSR x y phi RSPParam_default
       in (LSR1_param, [param_t LSR1_param, param_u LSR1_param, param_v LSR1_param], ''LSR'')),
      (let LSR2_param = LSR (- x) y (- phi) RSPParam_default
       in (LSR2_param,
           [- param_t LSR2_param, - param_u LSR2_param, - param_v LSR2_param], ''LSR'')),
      (let LSR3_param = LSR x (- y) (- phi) RSPParam_default
       in (LSR3_param, [param_t LSR3_param, param_u LSR3_param, param_v LSR3_param], ''RSL'')),
      (let LSR4_param = LSR (- x) (- y) phi RSPParam_default
       in (LSR4_param,
           [- param_t LSR4_param, - param_u LSR4_param, - param_v LSR4_param], ''RSL''))]"

definition CSC ::
  "ReedShepp \<Rightarrow> real \<Rightarrow> real \<Rightarrow> real \<Rightarrow> ReedSheppPath list \<Rightarrow> bool \<times> ReedSheppPath list" where
  "CSC rs x y phi all_possible_paths = run_blocks rs (CSC_blocks x y phi) all_possible_paths"

definition CCC_blocks :: "real \<Rightarrow> real \<Rightarrow> real \<Rightarrow> block list" where
  "CCC_blocks x y phi =
     (let xb = x * cos phi + y * sin phi;
          yb = x * sin phi - y * cos phi
      in
     [(let LRL1_param = LRL x y phi RSPParam_default
       in (LRL1_param, [param_t LRL1_param, param_u LRL1_param, param_v LRL1_param], ''LRL'')),
      (let LRL2_param = LRL (- x) y (- phi) RSPParam_default
       in (LRL2_param,
           [- param_t LRL2_param, - param_u LRL2_param, - param_v LRL2_param], ''LRL'')),
      (let LRL3_param = LRL x (- y) (- phi) RSPParam_default
       in (LRL3_param, [param_t LRL3_param, param_u LRL3_param, param_v LRL3_param], ''RLR'')),
      (let LRL4_param = LRL (- x) (- y) phi RSPParam_default
       in (LRL4_param,
           [- param_t LRL4_param, - param_u LRL4_param, - param_v LRL4_param], ''RLR'')),
      (let LRL5_param = LRL xb yb phi RSPParam_default
       in (LRL5_param, [param_v LRL5_param, param_u LRL5_param, param_t LRL5_param], ''LRL'')),
      (let LRL6_param = LRL (- xb) yb (- phi) RSPParam_default
       in (LRL6_param,
           [- param_v LRL6_param, - param_u LRL6_param, - param_t LRL6_param], ''LRL'')),
      (let LRL7_param = LRL xb (- yb) (- phi) RSPParam_default
       in (LRL7_param, [param_v LRL7_param, param_u LRL7_param, param_t LRL7_param], ''RLR'')),
      (let LRL8_param = LRL (- xb) (- yb) phi RSPParam_default
       in (LRL8_param,
           [- param_v LRL8_param, - param_u LRL8_param, - param_t LRL8_param], ''RLR''))])"

definition CCC ::
  "ReedShepp \<Rightarrow> real \<Rightarrow> real \<Rightarrow> real \<Rightarrow> ReedSheppPath list \<Rightarrow> bool \<times> ReedSheppPath list" where
  "CCC rs x y phi all_possible_paths = run_blocks rs (CCC_blocks x y phi) all_possible_paths"

definition CCCC_blocks :: "real \<Rightarrow> real \<Rightarrow> real \<Rightarrow> block list" where
  "CCCC_blocks x y phi =
     [(let LRLRn1_param = LRLRn x y phi RSPParam_default
       in (LRLRn1_param,
           [param_t LRLRn1_param, param_u LRLRn1_param, - param_u LRLRn1_param,
            param_v LRLRn1_param], ''LRLR'')),
      (let LRLRn2_param = LRLRn (- x) y (- phi) RSPParam_default
       in (LRLRn2_param,
           [- param_t LRLRn2_param, - param_u LRLRn2_param, param_u LRLRn2_param,
            - param_v LRLRn2_param], ''LRLR'')),
      (let LRLRn3_param = LRLRn x (- y) (- phi) RSPParam_default
       in (LRLRn3_param,
           [param_t LRLRn3_param, param_u LRLRn3_param, - param_u LRLRn3_param,
            param_v LRLRn3_param], ''RLRL'')),
      (let LRLRn4_param = LRLRn (- x) (- y) phi RSPParam_default
       in (LRLRn4_param,
           [- param_t LRLRn4_param, - param_u LRLRn4_param, param_u LRLRn4_param,
            - param_v LRLRn4_param], ''RLRL'')),
      (let LRLRp1_param = LRLRp x y phi RSPParam_default
       in (LRLRp1_param,
           [param_t LRLRp1_param, param_u LRLRp1_param, param_u LRLRp1_param,
            param_v LRLRp1_param], ''LRLR'')),
      (let LRLRp2_param = LRLRp (- x) y (- phi) RSPParam_default
       in (LRLRp2_param,
           [- param_t LRLRp2_param, - param_u LRLRp2_param, - param_u LRLRp2_param,
            - param_v LRLRp2_param], ''LRLR'')),
      (let LRLRp3_param = LRLRp x (- y) (- phi) RSPParam_default
       in (LRLRp3_param,
           [param_t LRLRp3_param, param_u LRLRp3_param, param_u LRLRp3_param,
            param_v LRLRp3_param], ''RLRL'')),
      (let LRLRp4_param = LRLRp (- x) (- y) phi RSPParam_default
       in (LRLRp4_param,
           [- param_t LRLRp4_param, - param_u LRLRp4_param, - param_u LRLRp4_param,
            - param_v LRLRp4_param], ''RLRL''))]"

definition CCCC ::
  "ReedShepp \<Rightarrow> real \<Rightarrow> real \<Rightarrow> real \<Rightarrow> ReedSheppPath list \<Rightarrow> bool \<times> ReedSheppPath list" where
  "CCCC rs x y phi all_possible_paths = run_blocks rs (CCCC_blocks x y phi) all_possible_paths"

text \<open>
  \<open>CCSC\<close> calls \<open>LRLRn\<close> and \<open>LRLRp\<close>, as the source does; \<open>LRSL\<close> and \<open>LRSR\<close>
  have no caller. \<open>M_PI\<close> is \<^term>\<open>pi\<close>.
\<close>

definition CCSC_blocks :: "real \<Rightarrow> real \<Rightarrow> real \<Rightarrow> block list" where
  "CCSC_blocks x y phi =
     (let xb = x * cos phi + y * sin phi;
          yb = x * sin phi - y * cos phi
      in
     [(let LRSL1_param = LRLRn x y phi RSPParam_default
       in (LRSL1_param,
           [param_t LRSL1_param, - 0.5 * pi, - param_u LRSL1_param, param_v LRSL1_param],
           ''LRSL'')),
      (let LRSL2_param = LRLRn (- x) y (- phi) RSPParam_default
       in (LRSL2_param,
           [- param_t LRSL2_param, 0.5 * pi, - param_u LRSL2_param, - param_v LRSL2_param],
           ''LRSL'')),
      (let LRSL3_param = LRLRn x (- y) (- phi) RSPParam_default
       in (LRSL3_param,
           [param_t LRSL3_param, - 0.5 * pi, param_u LRSL3_param, param_v LRSL3_param],
           ''RLSR'')),
      (let LRSL4_param = LRLRn (- x) (- y) phi RSPParam_default
       in (LRSL4_param,
           [- param_t LRSL4_param, - 0.5 * pi, - param_u LRSL4_param, - param_v LRSL4_param],
           ''RLSR'')),
      (let LRSR1_param = LRLRp x y phi RSPParam_default
       in (LRSR1_param,
           [param_t LRSR1_param, - 0.5 * pi, param_u LRSR1_param, param_v LRSR1_param],
           ''LRSR'')),
      (let LRSR2_param = LRLRp (- x) y (- phi) RSPParam_default
       in (LRSR2_param,
           [- param_t LRSR2_param, 0.5 * pi, - param_u LRSR2_param, - param_v LRSR2_param],
           ''LRSR'')),
      (let LRSR3_param = LRLRp x (- y) (- phi) RSPParam_default
       in (LRSR3_param,
           [param_t LRSR3_param, - 0.5 * pi, param_u LRSR3_param, param_v LRSR3_param],
           ''RLSL'')),
      (let LRSR4_param = LRLRp (- x) (- y) phi RSPParam_default
       in (LRSR4_param,
           [- param_t LRSR4_param, 0.5 * pi, - param_u LRSR4_param, - param_v LRSR4_param],
           ''RLSL'')),
      (let LRSL5_param = LRLRn xb yb phi RSPParam_default
       in (LRSL5_param,
           [param_v LRSL5_param, param_u LRSL5_param, - 0.5 * pi, param_t LRSL5_param],
           ''LSRL'')),
      (let LRSL6_param = LRLRn (- xb) yb (- phi) RSPParam_default
       in (LRSL6_param,
           [- param_v LRSL6_param, - param_u LRSL6_param, 0.5 * pi, - param_t LRSL6_param],
           ''LSRL'')),
      (let LRSL7_param = LRLRn xb (- yb) (- phi) RSPParam_default
       in (LRSL7_param,
           [param_v LRSL7_param, param_u LRSL7_param, - 0.5 * pi, param_t LRSL7_param],
           ''RSLR'')),
      (let LRSL8_param = LRLRn (- xb) (- yb) phi RSPParam_default
       in (LRSL8_param,
           [- param_v LRSL8_param, - param_u LRSL8_param, 0.5 * pi, - param_t LRSL8_param],
           ''RSLR'')),
      (let LRSR5_param = LRLRp xb yb phi RSPParam_default
       in (LRSR5_param,
           [param_v LRSR5_param, param_u LRSR5_param, - 0.5 * pi, param_t LRSR5_param],
           ''RSRL'')),
      (let LRSR6_param = LRLRp (- xb) yb (- phi) RSPParam_default
       in (LRSR6_param,
           [- param_v LRSR6_param, - param_u LRSR6_param, 0.5 * pi, - param_t LRSR6_param],
           ''RSRL'')),
      (let LRSR7_param = LRLRp xb (- yb) (- phi) RSPParam_default
       in (LRSR7_param,
           [param_v LRSR7_param, param_u LRSR7_param, - 0.5 * pi, param_t LRSR7_param],
           ''LSLR'')),
      (let LRSR8_param = LRLRp (- xb) (- yb) phi RSPParam_default
       in (LRSR8_param,
           [- param_v LRSR8_param, - param_u LRSR8_param, 0.5 * pi, - param_t LRSR8_param],
           ''LSLR''))])"

definition CCSC ::
  "ReedShepp \<Rightarrow> real \<Rightarrow> real \<Rightarrow> real \<Rightarrow> ReedSheppPath list \<Rightarrow> bool \<times> ReedSheppPath list" where
  "CCSC rs x y phi all_possible_paths = run_blocks rs (CCSC_blocks x y phi) all_possible_paths"

definition CCSCC_blocks :: "real \<Rightarrow> real \<Rightarrow> real \<Rightarrow> block list" where
  "CCSCC_blocks x y phi =
     [(let LRSLR1_param = LRSLR x y phi RSPParam_default
       in (LRSLR1_param,
           [param_t LRSLR1_param, - 0.5 * pi, param_u LRSLR1_param, - 0.5 * pi,
            param_v LRSLR1_param], ''LRSLR'')),
      (let LRSLR2_param = LRSLR (- x) y (- phi) RSPParam_default
       in (LRSLR2_param,
           [- param_t LRSLR2_param, 0.5 * pi, - param_u LRSLR2_param, 0.5 * pi,
            - param_v LRSLR2_param], ''LRSLR'')),
      (let LRSLR3_param = LRSLR x (- y) (- phi) RSPParam_default
       in (LRSLR3_param,
           [param_t LRSLR3_param, - 0.5 * pi, param_u LRSLR3_param, - 0.5 * pi,
            param_v LRSLR3_param], ''RLSRL'')),
      (let LRSLR4_param = LRSLR (- x) (- y) phi RSPParam_default
       in (LRSLR4_param,
           [- param_t LRSLR4_param, 0.5 * pi, - param_u LRSLR4_param, 0.5 * pi,
            - param_v LRSLR4_param], ''RLSRL''))]"

definition CCSCC ::
  "ReedShepp \<Rightarrow> real \<Rightarrow> real \<Rightarrow> real \<Rightarrow> ReedSheppPath list \<Rightarrow> bool \<times> ReedSheppPath list" where
  "CCSCC rs x y phi all_possible_paths = run_blocks rs (CCSCC_blocks x y phi) all_possible_paths"

subsection \<open>The search over the six families\<close>

definition GenerateRSP ::
  "ReedShepp \<Rightarrow> Node3d \<Rightarrow> Node3d \<Rightarrow> ReedSheppPath list \<Rightarrow> bool \<times> ReedSheppPath list" where
  "GenerateRSP rs start_node end_node all_possible_paths =
     (let dx = GetX end_node - GetX start_node;
          dy = GetY end_node - GetY start_node;
          dphi = GetPhi end_node - GetPhi start_node;
          c = cos (GetPhi start_node);
          s = sin (GetPhi start_node);
          x = (c * dx + s * dy) * max_kappa rs;
          y = (- s * dx + c * dy) * max_kappa rs
      in case SCS rs x y dphi all_possible_paths of
           (False, paths) \<Rightarrow> (False, paths)
         | (True, paths) \<Rightarrow>
       (case CSC rs x y dphi paths of
           (False, paths) \<Rightarrow> (False, paths)
         | (True, paths) \<Rightarrow>
       (case CCC rs x y dphi paths of
           (False, paths) \<Rightarrow> (False, paths)
         | (True, paths) \<Rightarrow>
       (case CCCC rs x y dphi paths of
           (False, paths) \<Rightarrow> (False, paths)
         | (True, paths) \<Rightarrow>
       (case CCSC rs x y dphi paths of
           (False, paths) \<Rightarrow> (False, paths)
         | (True, paths) \<Rightarrow>
       (case CCSCC rs x y dphi paths of
           (False, paths) \<Rightarrow> (False, paths)
         | (True, paths) \<Rightarrow>
       (if length paths = 0 then (False, paths) else (True, paths))))))))"

subsection \<open>Discretizer\<close>

text \<open>
  The four sample buffers of \<open>GenerateLocalConfigurations\<close>. \<open>index\<close> is a
  \<open>double\<close> in the source and is converted where it is used as a subscript; it only ever
  holds small whole numbers and is an \<^typ>\<open>int\<close> here. A subscript outside a vector
  makes \<open>at\<close> throw.
\<close>

record buffers =
  px :: "real list"
  py :: "real list"
  pphi :: "real list"
  pgear :: "bool list"

definition read_at :: "'a list \<Rightarrow> int \<Rightarrow> error + 'a" where
  "read_at xs i = (if 0 \<le> i \<and> i < int (length xs) then Inr (xs ! nat i) else Inl OutOfRange)"

definition assign_at :: "'a list \<Rightarrow> int \<Rightarrow> 'a \<Rightarrow> error + 'a list" where
  "assign_at xs i v =
     (if 0 \<le> i \<and> i < int (length xs) then Inr (xs[nat i := v]) else Inl OutOfRange)"

definition bind_err :: "error + 'a \<Rightarrow> ('a \<Rightarrow> error + 'b) \<Rightarrow> error + 'b" where
  "bind_err r f = (case r of Inl e \<Rightarrow> Inl e | Inr v \<Rightarrow> f v)"

definition Interpolation ::
  "ReedShepp \<Rightarrow> int \<Rightarrow> real \<Rightarrow> char \<Rightarrow> real \<Rightarrow> real \<Rightarrow> real \<Rightarrow> buffers \<Rightarrow> error + buffers" where
  "Interpolation rs index pd m ox oy ophi b =
     bind_err
       (if m = CHR ''S'' then
          bind_err (assign_at (px b) index (ox + pd / max_kappa rs * cos ophi)) (\<lambda>px'.
          bind_err (assign_at (py b) index (oy + pd / max_kappa rs * sin ophi)) (\<lambda>py'.
          bind_err (assign_at (pphi b) index ophi) (\<lambda>pphi'.
          Inr (b\<lparr>px := px', py := py', pphi := pphi'\<rparr>))))
        else
          (let ldx = sin pd / max_kappa rs;
               ldy = (if m = CHR ''L'' then (1 - cos pd) / max_kappa rs
                      else if m = CHR ''R'' then (1 - cos pd) / - max_kappa rs
                      else 0);
               gdx = cos (- ophi) * ldx + sin (- ophi) * ldy;
               gdy = - sin (- ophi) * ldx + cos (- ophi) * ldy
           in bind_err (assign_at (px b) index (ox + gdx)) (\<lambda>px'.
              bind_err (assign_at (py b) index (oy + gdy)) (\<lambda>py'.
              Inr (b\<lparr>px := px', py := py'\<rparr>)))))
       (\<lambda>b1.
          bind_err (assign_at (pgear b1) index (0 < pd)) (\<lambda>pgear'.
          (let b2 = b1\<lparr>pgear := pgear'\<rparr>
           in if m = CHR ''L'' then
                bind_err (assign_at (pphi b2) index (ophi + pd)) (\<lambda>pphi'.
                Inr (b2\<lparr>pphi := pphi'\<rparr>))
              else if m = CHR ''R'' then
                bind_err (assign_at (pphi b2) index (ophi - pd)) (\<lambda>pphi'.
                Inr (b2\<lparr>pphi := pphi'\<rparr>))
              else Inr b2)))"

lemma assign_at_Inr:
  "assign_at xs i v = Inr ys \<Longrightarrow> 0 \<le> i \<and> i < int (length xs) \<and> ys = xs[nat i := v]"
  by (simp add: assign_at_def split: if_splits)

lemma Interpolation_Inr:
  assumes "Interpolation rs index pd m ox oy ophi b = Inr b'"
  shows "0 \<le> index \<and> index < int (length (px b)) \<and> length (px b') = length (px b)"
  using assms
  by (auto simp: Interpolation_def bind_err_def Let_def
      split: sum.splits if_splits dest!: assign_at_Inr)

text \<open>
  The inner loop \<open>while (std::abs(pd) <= std::abs(l))\<close>. Each round writes one sample
  further up the buffers, so the loop ends with the exception of \<open>at\<close> at the latest.
\<close>

function walk ::
  "ReedShepp \<Rightarrow> char \<Rightarrow> real \<Rightarrow> real \<Rightarrow> real \<Rightarrow> real \<Rightarrow> real \<Rightarrow> int \<Rightarrow> real \<Rightarrow> buffers
   \<Rightarrow> error + (int \<times> real \<times> buffers)" where
  "walk rs m l d ox oy ophi index pd b =
     (if \<bar>pd\<bar> \<le> \<bar>l\<bar> then
        (case Interpolation rs (index + 1) pd m ox oy ophi b of
           Inl e \<Rightarrow> Inl e
         | Inr b' \<Rightarrow> walk rs m l d ox oy ophi (index + 1) (pd + d) b')
      else Inr (index, pd, b))"
  by pat_completeness auto
termination
proof (relation "measure (\<lambda>(rs, m, l, d, ox, oy, ophi, index, pd, b).
                   nat (int (length (px b)) - index))", goal_cases)
  case 1
  show ?case by simp
next
  case (2 rs m l d ox oy ophi index pd b b')
  from Interpolation_Inr [OF 2(2)] show ?case by simp
qed

declare walk.simps [simp del]

text \<open>
  One round of the loop over the segments. The state that survives a round is \<open>index\<close>,
  \<open>ll\<close> and the buffers: \<open>d\<close> and \<open>pd\<close> are assigned anew before they are read.
  \<open>segs_lengths[i - 1]\<close> is read after \<open>segs_lengths.at(i)\<close> has succeeded.
\<close>

definition segment_step ::
  "ReedShepp \<Rightarrow> ReedSheppPath \<Rightarrow> nat \<Rightarrow> int \<times> real \<times> buffers \<Rightarrow> error + (int \<times> real \<times> buffers)"
  where
  "segment_step rs path i st =
     (case st of (index, ll, b) \<Rightarrow>
      bind_err (read_at (segs_types path) (int i)) (\<lambda>m.
      bind_err (read_at (segs_lengths path) (int i)) (\<lambda>l.
      (let d = (if 0 < l then step_size rs else - step_size rs)
       in bind_err (read_at (px b) index) (\<lambda>ox.
          bind_err (read_at (py b) index) (\<lambda>oy.
          bind_err (read_at (pphi b) index) (\<lambda>ophi.
          (let index1 = index - 1;
               pd = (if 1 \<le> i \<and> 0 < segs_lengths path ! (i - 1) * l then - d - ll
                     else d - ll)
           in bind_err (walk rs m l d ox oy ophi index1 pd b) (\<lambda>(index2, pd2, b2).
              (let ll' = l - pd2 - d;
                   index3 = index2 + 1
               in bind_err (Interpolation rs index3 l m ox oy ophi b2) (\<lambda>b3.
                  Inr (index3, ll', b3))))))))))))"

fun segments_loop ::
  "ReedShepp \<Rightarrow> ReedSheppPath \<Rightarrow> nat list \<Rightarrow> int \<times> real \<times> buffers
   \<Rightarrow> error + (int \<times> real \<times> buffers)" where
  "segments_loop rs path [] st = Inr st"
| "segments_loop rs path (i # rest) st =
     (case segment_step rs path i st of
        Inl e \<Rightarrow> Inl e
      | Inr st' \<Rightarrow> segments_loop rs path rest st')"

text \<open>
  \<open>while (px.back() == 0.0)\<close> with the four \<open>pop_back\<close>s: \<open>back\<close> and \<open>pop_back\<close> on
  an empty vector are undefined.
\<close>

function trim_trailing :: "buffers \<Rightarrow> error + buffers" where
  "trim_trailing b =
     (if px b = [] then Inl UndefinedBehaviour
      else if last (px b) = 0 then
        (if py b = [] \<or> pphi b = [] \<or> pgear b = [] then Inl UndefinedBehaviour
         else trim_trailing (b\<lparr>px := butlast (px b), py := butlast (py b),
                               pphi := butlast (pphi b), pgear := butlast (pgear b)\<rparr>))
      else Inr b)"
  by pat_completeness auto
termination
  by (relation "measure (\<lambda>b. length (px b))") auto

declare trim_trailing.simps [simp del]

text \<open>
  The body of \<open>for (auto path : *all_possible_paths)\<close>: what the loop variable holds at
  the end of one round. \<open>point_num\<close> is the conversion of a \<open>double\<close> to \<open>std::size_t\<close>.
\<close>

definition discretize :: "ReedShepp \<Rightarrow> Node3d \<Rightarrow> ReedSheppPath \<Rightarrow> error + ReedSheppPath" where
  "discretize rs start_node path =
     (let point_num = nat \<lfloor>total_length path / step_size rs
                            + real (length (segs_lengths path)) + 3\<rfloor>;
          b0 = \<lparr>px = replicate point_num 0, py = replicate point_num 0,
                pphi = replicate point_num 0, pgear = replicate point_num True\<rparr>
      in bind_err (read_at (segs_lengths path) 0) (\<lambda>l0.
         bind_err (assign_at (pgear b0) 0 (0 < l0)) (\<lambda>pgear'.
         bind_err (segments_loop rs path [0 ..< length (segs_types path)]
                     (1, 0, b0\<lparr>pgear := pgear'\<rparr>)) (\<lambda>(index, ll, b1).
         bind_err (trim_trailing b1) (\<lambda>b.
         if length (py b) < length (px b) \<or> length (pphi b) < length (px b)
         then Inl OutOfRange
         else Inr (path\<lparr>
           path_x := path_x path @
             map (\<lambda>i. cos (- GetPhi start_node) * px b ! i
                      + sin (- GetPhi start_node) * py b ! i + GetX start_node)
                 [0 ..< length (px b)],
           path_y := path_y path @
             map (\<lambda>i. - sin (- GetPhi start_node) * px b ! i
                      + cos (- GetPhi start_node) * py b ! i + GetY start_node)
                 [0 ..< length (px b)],
           path_phi := path_phi path @
             map (\<lambda>i. NormalizeAngle (pphi b ! i + GetPhi start_node))
                 [0 ..< length (px b)],
           path_gear := pgear b,
           segs_lengths := map (\<lambda>l. l / max_kappa rs) (segs_lengths path),
           total_length := total_length path / max_kappa rs\<rparr>))))))"

text \<open>
  The loop variable is a copy of the element (\<open>auto path\<close>, not \<open>auto& path\<close>), so a
  round leaves \<open>all_possible_paths\<close> as it was; only an exception or undefined behaviour
  of the round is seen outside.
\<close>

fun local_configurations_loop ::
  "ReedShepp \<Rightarrow> Node3d \<Rightarrow> ReedSheppPath list \<Rightarrow> error + unit" where
  "local_configurations_loop rs start_node [] = Inr ()"
| "local_configurations_loop rs start_node (path # rest) =
     (case discretize rs start_node path of
        Inl e \<Rightarrow> Inl e
      | Inr path' \<Rightarrow> local_configurations_loop rs start_node rest)"

definition GenerateLocalConfigurations ::
  "ReedShepp \<Rightarrow> Node3d \<Rightarrow> Node3d \<Rightarrow> ReedSheppPath list \<Rightarrow> error + (bool \<times> ReedSheppPath list)"
  where
  "GenerateLocalConfigurations rs start_node end_node all_possible_paths =
     bind_err (local_configurations_loop rs start_node all_possible_paths) (\<lambda>_.
     Inr (True, all_possible_paths))"

subsection \<open>Selector\<close>

definition GenerateRSPs ::
  "ReedShepp \<Rightarrow> Node3d \<Rightarrow> Node3d \<Rightarrow> ReedSheppPath list \<Rightarrow> error + (bool \<times> ReedSheppPath list)"
  where
  "GenerateRSPs rs start_node end_node all_possible_paths =
     (case GenerateRSP rs start_node end_node all_possible_paths of
        (False, paths) \<Rightarrow> Inr (False, paths)
      | (True, paths) \<Rightarrow>
          bind_err (GenerateLocalConfigurations rs start_node end_node paths) (\<lambda>(ok, paths').
          if ok then Inr (True, paths') else Inr (False, paths')))"

text \<open>
  The scan for the minimum. \<open>optimal_path_length\<close> starts at infinity, which is
  \<^term>\<open>None\<close> here; \<open>optimal_path_index\<close> starts at \<open>-1\<close>.
\<close>

fun below :: "real \<Rightarrow> real option \<Rightarrow> bool" where
  "below a None = True"
| "below a (Some b) = (a < b)"

fun scan_paths :: "ReedSheppPath list \<Rightarrow> nat \<Rightarrow> real option \<times> int \<Rightarrow> real option \<times> int" where
  "scan_paths [] i best = best"
| "scan_paths (p # rest) i (optimal_path_length, optimal_path_index) =
     (if below (total_length p) optimal_path_length
      then scan_paths rest (Suc i) (Some (total_length p), int i)
      else scan_paths rest (Suc i) (optimal_path_length, optimal_path_index))"

text \<open>
  The result of \<open>ShortestRSP\<close>: \<^term>\<open>Inr None\<close> is \<open>return false\<close>, with
  \<open>*optimal_path\<close> untouched, \<^term>\<open>Inr (Some p)\<close> is \<open>return true\<close> with \<open>p\<close>
  written to \<open>*optimal_path\<close>, and \<^term>\<open>Inl e\<close> is an exception or undefined behaviour
  on the way.
\<close>

definition ShortestRSP :: "ReedShepp \<Rightarrow> Node3d \<Rightarrow> Node3d \<Rightarrow> error + ReedSheppPath option" where
  "ShortestRSP rs start_node end_node =
     bind_err (GenerateRSPs rs start_node end_node []) (\<lambda>(ok, all_possible_paths).
     if \<not> ok then Inr None
     else (let optimal_path_index = snd (scan_paths all_possible_paths 0 (None, - 1))
           in bind_err (read_at all_possible_paths optimal_path_index) (\<lambda>p. Inr (Some p))))"

section \<open>Definitions used in the statements and proofs\<close>

subsection \<open>The words of the specification\<close>







text \<open>
  The offset of the goal from the start pose in the frame of the start pose, as
  \<open>GenerateRSP\<close> computes it before it scales by \<open>max_kappa_\<close>; the pose that has a given
  offset in that frame; and the goal whose offset is \<open>(gx, - gy, - gphi)\<close> when the offset
  of \<open>end_node\<close> is \<open>(gx, gy, gphi)\<close>. For a start heading \<open>0\<close> the frame of the start
  pose has the global axes.
\<close>

definition goal_offset :: "Node3d \<Rightarrow> Node3d \<Rightarrow> real \<times> real \<times> real" where
  "goal_offset start_node end_node =
     (let dx = GetX end_node - GetX start_node;
          dy = GetY end_node - GetY start_node;
          dphi = GetPhi end_node - GetPhi start_node;
          c = cos (GetPhi start_node);
          s = sin (GetPhi start_node)
      in (c * dx + s * dy, - s * dx + c * dy, dphi))"

definition pose_at_offset :: "Node3d \<Rightarrow> real \<times> real \<times> real \<Rightarrow> Node3d" where
  "pose_at_offset start_node offset =
     (case offset of (gx, gy, gphi) \<Rightarrow>
        \<lparr>GetX = GetX start_node
                  + (cos (GetPhi start_node) * gx - sin (GetPhi start_node) * gy),
         GetY = GetY start_node
                  + (sin (GetPhi start_node) * gx + cos (GetPhi start_node) * gy),
         GetPhi = GetPhi start_node + gphi\<rparr>)"

definition mirror_goal :: "Node3d \<Rightarrow> Node3d \<Rightarrow> Node3d" where
  "mirror_goal start_node end_node =
     (case goal_offset start_node end_node of
        (gx, gy, gphi) \<Rightarrow> pose_at_offset start_node (gx, - gy, - gphi))"

subsection \<open>Normal forms\<close>

text \<open>
  \<open>lengths_size\<close> of \<open>SetRSP\<close>, the record it appends, the records a block appends,
  the blocks of the six families in the order of \<open>GenerateRSP\<close>, the pose that
  \<open>GenerateRSP\<close> hands to the families, and the collection the search ends with.
\<close>

definition lengths_size :: "ReedShepp \<Rightarrow> nat" where
  "lengths_size rs = sizeof_double_ptr (platform rs) div sizeof_double"

definition assembled :: "ReedShepp \<Rightarrow> real list \<Rightarrow> string \<Rightarrow> ReedSheppPath" where
  "assembled rs lengths types =
     \<lparr>segs_lengths = take (lengths_size rs) lengths,
      segs_types = take (lengths_size rs) types,
      total_length = sum_list (map abs (take (lengths_size rs) lengths)),
      path_x = [], path_y = [], path_phi = [], path_gear = []\<rparr>"

fun block_paths :: "ReedShepp \<Rightarrow> block \<Rightarrow> ReedSheppPath list" where
  "block_paths rs (param, lengths, types) = (if flag param then [assembled rs lengths types] else [])"

definition all_blocks :: "real \<Rightarrow> real \<Rightarrow> real \<Rightarrow> block list" where
  "all_blocks x y phi = SCS_blocks x y phi @ CSC_blocks x y phi @ CCC_blocks x y phi
     @ CCCC_blocks x y phi @ CCSC_blocks x y phi @ CCSCC_blocks x y phi"

definition normalized :: "ReedShepp \<Rightarrow> Node3d \<Rightarrow> Node3d \<Rightarrow> real \<times> real \<times> real" where
  "normalized rs start_node end_node =
     (let dx = GetX end_node - GetX start_node;
          dy = GetY end_node - GetY start_node;
          dphi = GetPhi end_node - GetPhi start_node;
          c = cos (GetPhi start_node);
          s = sin (GetPhi start_node)
      in ((c * dx + s * dy) * max_kappa rs, (- s * dx + c * dy) * max_kappa rs, dphi))"

definition candidates :: "ReedShepp \<Rightarrow> Node3d \<Rightarrow> Node3d \<Rightarrow> ReedSheppPath list" where
  "candidates rs start_node end_node =
     (case normalized rs start_node end_node of
        (x, y, phi) \<Rightarrow> concat (map (block_paths rs) (all_blocks x y phi)))"

text \<open>A path of one segment, and the validity flag of a block with the total length of its record.\<close>

definition arc :: "char \<Rightarrow> real \<Rightarrow> ReedSheppPath" where
  "arc m l = \<lparr>segs_lengths = [l], segs_types = [m], total_length = \<bar>l\<bar>,
               path_x = [], path_y = [], path_phi = [], path_gear = []\<rparr>"

fun block_key :: "ReedShepp \<Rightarrow> block \<Rightarrow> bool \<times> real" where
  "block_key rs (param, lengths, types) =
     (flag param, sum_list (take (lengths_size rs) (map abs lengths)))"

section \<open>Lemmas\<close>

subsection \<open>Assembler, orchestrators and search\<close>

lemma foldl_abs_sum: "foldl (\<lambda>s l. s + \<bar>l\<bar>) a ls = a + sum_list (map abs ls)"
  for a :: real
  by (induction ls arbitrary: a) auto

lemma sum_list_abs_nonneg: "0 \<le> sum_list (map abs ls)" for ls :: "real list"
  by (induction ls) auto

lemma SetRSP_eq: "SetRSP rs lengths types ps = (True, ps @ [assembled rs lengths types])"
  using sum_list_abs_nonneg [of "take (lengths_size rs) lengths"]
  by (simp add: SetRSP_def assembled_def lengths_size_def foldl_abs_sum Let_def)

lemma run_blocks_eq: "run_blocks rs bs ps = (True, ps @ concat (map (block_paths rs) bs))"
  by (induction bs arbitrary: ps) (auto simp: SetRSP_eq)

lemma GenerateRSP_eq:
  "GenerateRSP rs start_node end_node ps =
     (ps @ candidates rs start_node end_node \<noteq> [], ps @ candidates rs start_node end_node)"
  by (simp add: GenerateRSP_def candidates_def normalized_def all_blocks_def Let_def
      SCS_def CSC_def CCC_def CCCC_def CCSC_def CCSCC_def run_blocks_eq)

lemma lengths_size_LP64: "platform rs = LP64 \<Longrightarrow> lengths_size rs = 1"
  by (simp add: lengths_size_def sizeof_double_def)

lemma arc_simps [simp]:
  "segs_lengths (arc m l) = [l]" "segs_types (arc m l) = [m]"
  "total_length (arc m l) = \<bar>l\<bar>" "path_x (arc m l) = []" "path_y (arc m l) = []"
  "path_phi (arc m l) = []" "path_gear (arc m l) = []"
  by (simp_all add: arc_def)

lemma arc_record:
  "arc m l = \<lparr>segs_lengths = [l], segs_types = [m], total_length = \<bar>l\<bar>,
               path_x = [], path_y = [], path_phi = [], path_gear = []\<rparr>"
  by (simp add: arc_def)

lemma assembled_LP64: "platform rs = LP64 \<Longrightarrow> assembled rs (l # ls) (m # ms) = arc m l"
  by (simp add: assembled_def arc_def lengths_size_LP64)

subsection \<open>Selector\<close>

lemma scan_paths_Some:
  assumes "scan_paths ps i (Some m, int k) = (bm, bi)" "k < i"
  shows "\<exists>m'. bm = Some m' \<and> (\<forall>p \<in> set ps. m' \<le> total_length p) \<and>
           ((bi = int k \<and> m' = m) \<or>
            (\<exists>j < length ps. bi = int (i + j) \<and> total_length (ps ! j) = m' \<and> m' < m \<and>
                 (\<forall>j' < j. m' < total_length (ps ! j'))))"
  using assms
proof (induction ps arbitrary: i m k)
  case Nil
  then show ?case by simp
next
  case (Cons p rest)
  show ?case
  proof (cases "total_length p < m")
    case True
    with Cons.prems have run: "scan_paths rest (Suc i) (Some (total_length p), int i) = (bm, bi)"
      by simp
    from Cons.IH [OF run] obtain m' where m': "bm = Some m'"
      "\<forall>q \<in> set rest. m' \<le> total_length q"
      "(bi = int i \<and> m' = total_length p) \<or>
        (\<exists>j < length rest. bi = int (Suc i + j) \<and> total_length (rest ! j) = m' \<and>
             m' < total_length p \<and> (\<forall>j' < j. m' < total_length (rest ! j')))"
      by auto
    from m'(3) show ?thesis
    proof
      assume a: "bi = int i \<and> m' = total_length p"
      have "\<exists>j < length (p # rest). bi = int (i + j) \<and> total_length ((p # rest) ! j) = m' \<and>
               m' < m \<and> (\<forall>j' < j. m' < total_length ((p # rest) ! j'))"
        by (rule exI [of _ 0]) (use a True in simp)
      with m'(1,2) a show ?thesis by auto
    next
      assume "\<exists>j < length rest. bi = int (Suc i + j) \<and> total_length (rest ! j) = m' \<and>
             m' < total_length p \<and> (\<forall>j' < j. m' < total_length (rest ! j'))"
      then obtain j where j: "j < length rest" "bi = int (Suc i + j)"
        "total_length (rest ! j) = m'" "m' < total_length p"
        "\<forall>j' < j. m' < total_length (rest ! j')" by blast
      have "\<forall>j' < Suc j. m' < total_length ((p # rest) ! j')"
        using j(4,5) by (auto simp: nth_Cons split: nat.splits)
      then have "\<exists>j < length (p # rest). bi = int (i + j) \<and>
               total_length ((p # rest) ! j) = m' \<and>
               m' < m \<and> (\<forall>j' < j. m' < total_length ((p # rest) ! j'))"
        using j True by (intro exI [of _ "Suc j"]) simp
      with m'(1,2) j(4) show ?thesis by auto
    qed
  next
    case False
    with Cons.prems have run: "scan_paths rest (Suc i) (Some m, int k) = (bm, bi)"
      by simp
    have "k < Suc i" using Cons.prems by simp
    from Cons.IH [OF run this] obtain m' where m': "bm = Some m'"
      "\<forall>q \<in> set rest. m' \<le> total_length q"
      "(bi = int k \<and> m' = m) \<or>
        (\<exists>j < length rest. bi = int (Suc i + j) \<and> total_length (rest ! j) = m' \<and>
             m' < m \<and> (\<forall>j' < j. m' < total_length (rest ! j')))"
      by auto
    from m'(3) show ?thesis
    proof
      assume a: "bi = int k \<and> m' = m"
      with m'(1,2) False show ?thesis by auto
    next
      assume "\<exists>j < length rest. bi = int (Suc i + j) \<and> total_length (rest ! j) = m' \<and>
             m' < m \<and> (\<forall>j' < j. m' < total_length (rest ! j'))"
      then obtain j where j: "j < length rest" "bi = int (Suc i + j)"
        "total_length (rest ! j) = m'" "m' < m"
        "\<forall>j' < j. m' < total_length (rest ! j')" by blast
      have "\<forall>j' < Suc j. m' < total_length ((p # rest) ! j')"
        using j(4,5) False by (auto simp: nth_Cons split: nat.splits)
      then have "\<exists>j < length (p # rest). bi = int (i + j) \<and>
               total_length ((p # rest) ! j) = m' \<and>
               m' < m \<and> (\<forall>j' < j. m' < total_length ((p # rest) ! j'))"
        using j by (intro exI [of _ "Suc j"]) simp
      with m'(1,2) j(4) False show ?thesis by auto
    qed
  qed
qed

lemma scan_paths_first_minimum:
  assumes "ps \<noteq> []"
  shows "\<exists>i < length ps. snd (scan_paths ps 0 (None, - 1)) = int i \<and>
           (\<forall>j < length ps. total_length (ps ! i) \<le> total_length (ps ! j)) \<and>
           (\<forall>j < i. total_length (ps ! i) < total_length (ps ! j))"
proof -
  from assms obtain p rest where ps: "ps = p # rest" by (cases ps) auto
  obtain bm bi where run: "scan_paths rest (Suc 0) (Some (total_length p), int 0) = (bm, bi)"
    by (cases "scan_paths rest (Suc 0) (Some (total_length p), int 0)") auto
  from scan_paths_Some [OF run] obtain m' where m': "bm = Some m'"
      "\<forall>q \<in> set rest. m' \<le> total_length q"
      "(bi = int 0 \<and> m' = total_length p) \<or>
        (\<exists>j < length rest. bi = int (Suc 0 + j) \<and> total_length (rest ! j) = m' \<and>
             m' < total_length p \<and> (\<forall>j' < j. m' < total_length (rest ! j')))"
    by auto
  have res: "snd (scan_paths ps 0 (None, - 1)) = bi"
    using run by (simp add: ps)
  from m'(3) show ?thesis
  proof
    assume a: "bi = int 0 \<and> m' = total_length p"
    have "\<forall>j < length ps. total_length (ps ! 0) \<le> total_length (ps ! j)"
      using m'(2) a by (auto simp: ps nth_Cons split: nat.splits)
    then show ?thesis
      using a res by (intro exI [of _ 0]) (simp add: ps)
  next
    assume "\<exists>j < length rest. bi = int (Suc 0 + j) \<and> total_length (rest ! j) = m' \<and>
             m' < total_length p \<and> (\<forall>j' < j. m' < total_length (rest ! j'))"
    then obtain j where j: "j < length rest" "bi = int (Suc 0 + j)"
        "total_length (rest ! j) = m'" "m' < total_length p"
        "\<forall>j' < j. m' < total_length (rest ! j')" by blast
    have 1: "\<forall>j' < length ps. total_length (ps ! Suc j) \<le> total_length (ps ! j')"
      using m'(2) j by (auto simp: ps nth_Cons split: nat.splits)
    have 2: "\<forall>j' < Suc j. total_length (ps ! Suc j) < total_length (ps ! j')"
      using j by (auto simp: ps nth_Cons split: nat.splits)
    show ?thesis
      using 1 2 j res by (intro exI [of _ "Suc j"]) (simp add: ps)
  qed
qed

lemma ShortestRSP_eq:
  "ShortestRSP rs s e =
     (if candidates rs s e = [] then Inr None
      else (case local_configurations_loop rs s (candidates rs s e) of
              Inl err \<Rightarrow> Inl err
            | Inr _ \<Rightarrow>
                (case read_at (candidates rs s e)
                        (snd (scan_paths (candidates rs s e) 0 (None, - 1))) of
                   Inl err \<Rightarrow> Inl err
                 | Inr p \<Rightarrow> Inr (Some p))))"
  by (simp add: ShortestRSP_def GenerateRSPs_def GenerateRSP_eq bind_err_def Let_def
      GenerateLocalConfigurations_def split: sum.splits)

lemma ShortestRSP_success:
  assumes "ShortestRSP rs s e = Inr (Some p)"
  shows "candidates rs s e \<noteq> [] \<and>
         read_at (candidates rs s e) (snd (scan_paths (candidates rs s e) 0 (None, - 1))) = Inr p"
  using assms by (simp add: ShortestRSP_eq split: if_splits sum.splits)

lemma ShortestRSP_minimal:
  assumes "ShortestRSP rs s e = Inr (Some p)"
  shows "p \<in> set (candidates rs s e) \<and> (\<forall>q \<in> set (candidates rs s e). total_length p \<le> total_length q)"
proof -
  let ?ps = "candidates rs s e"
  from ShortestRSP_success [OF assms] have ne: "?ps \<noteq> []"
    and rd: "read_at ?ps (snd (scan_paths ?ps 0 (None, - 1))) = Inr p" by auto
  from scan_paths_first_minimum [OF ne] obtain i where i: "i < length ?ps"
    "snd (scan_paths ?ps 0 (None, - 1)) = int i"
    "\<forall>j < length ?ps. total_length (?ps ! i) \<le> total_length (?ps ! j)" by blast
  from rd i(1,2) have "p = ?ps ! i" by (simp add: read_at_def)
  with i show ?thesis by (auto simp: in_set_conv_nth)
qed

lemma ShortestRSP_never_sampled:
  assumes "ShortestRSP rs s e = Inr (Some p)"
  shows "path_x p = [] \<and> path_y p = [] \<and> path_phi p = [] \<and> path_gear p = [] \<and>
         length (segs_lengths p) \<le> 1"
proof -
  have "path_x q = [] \<and> path_y q = [] \<and> path_phi q = [] \<and> path_gear q = [] \<and>
         length (segs_lengths q) \<le> 1"
    if "q \<in> set (concat (map (block_paths rs) bs))" for q bs
    using that by (cases "platform rs")
      (auto simp: assembled_def lengths_size_def sizeof_double_def split: if_splits)
  with ShortestRSP_minimal [OF assms] show ?thesis
    unfolding candidates_def by (auto split: prod.splits)
qed

subsection \<open>Angles\<close>

lemma NormalizeAngle_shift:
  assumes "- pi \<le> a - 2 * pi * of_int k" "a - 2 * pi * of_int k < pi"
  shows "NormalizeAngle a = a - 2 * pi * of_int k"
proof -
  have "\<lfloor>(a + pi) / (2 * pi)\<rfloor> = k"
  proof (rule floor_unique)
    show "of_int k \<le> (a + pi) / (2 * pi)"
      using assms(1) by (simp add: field_simps)
    show "(a + pi) / (2 * pi) < of_int k + 1"
      using assms(2) by (simp add: field_simps)
  qed
  then show ?thesis by (simp add: NormalizeAngle_def)
qed

lemma NormalizeAngle_id: "- pi \<le> a \<Longrightarrow> a < pi \<Longrightarrow> NormalizeAngle a = a"
  using NormalizeAngle_shift [of a 0] by simp

lemma NormalizeAngle_minus: "pi \<le> a \<Longrightarrow> a < 3 * pi \<Longrightarrow> NormalizeAngle a = a - 2 * pi"
  using NormalizeAngle_shift [of a 1] by simp

lemma NormalizeAngle_plus: "- 3 * pi \<le> a \<Longrightarrow> a < - pi \<Longrightarrow> NormalizeAngle a = a + 2 * pi"
  using NormalizeAngle_shift [of a "-1"] by simp

lemma NormalizeAngle_0 [simp]: "NormalizeAngle 0 = 0"
  by (rule NormalizeAngle_id) simp_all

lemma NormalizeAngle_pi: "NormalizeAngle pi = - pi"
  using NormalizeAngle_minus [of pi] by simp

lemma NormalizeAngle_minus_pi: "NormalizeAngle (- pi) = - pi"
  using NormalizeAngle_id [of "- pi"] by simp

lemma atan2_0_pos: "0 < x \<Longrightarrow> atan2 0 x = 0"
  by (simp add: atan2_def)

lemma atan2_pos_y: "0 < y \<Longrightarrow> 0 < atan2 y x \<and> atan2 y x < pi"
proof -
  assume y: "0 < y"
  consider "0 < x" | "x < 0" | "x = 0" by linarith
  then show ?thesis
  proof cases
    case 1
    then have "0 < y / x" using y by simp
    then have "0 < arctan (y / x)" by (simp only: zero_less_arctan_iff)
    moreover have "arctan (y / x) < pi / 2" by (rule arctan_ubound)
    ultimately show ?thesis using 1 by (simp add: atan2_def, insert pi_gt_zero, linarith)
  next
    case 2
    have "- (pi / 2) < arctan (y / x)" by (rule arctan_lbound)
    moreover have "y / x < 0" using 2 y by (simp add: divide_pos_neg)
    then have "arctan (y / x) < 0" by (simp only: arctan_less_zero_iff)
    ultimately show ?thesis using 2 y by (simp add: atan2_def, insert pi_gt_zero, linarith)
  next
    case 3
    then show ?thesis using y pi_gt_zero by (simp add: atan2_def)
  qed
qed

lemma atan2_neg_y: "y < 0 \<Longrightarrow> - pi < atan2 y x \<and> atan2 y x < 0"
proof -
  assume y: "y < 0"
  consider "0 < x" | "x < 0" | "x = 0" by linarith
  then show ?thesis
  proof cases
    case 1
    then have "y / x < 0" using y by (simp add: divide_neg_pos)
    then have "arctan (y / x) < 0" by (simp only: arctan_less_zero_iff)
    moreover have "- (pi / 2) < arctan (y / x)" by (rule arctan_lbound)
    ultimately show ?thesis using 1 by (simp add: atan2_def, insert pi_gt_zero, linarith)
  next
    case 2
    have "arctan (y / x) < pi / 2" by (rule arctan_ubound)
    moreover have "0 < y / x" using 2 y by (simp add: divide_neg_neg)
    then have "0 < arctan (y / x)" by (simp only: zero_less_arctan_iff)
    ultimately show ?thesis using 2 y by (simp add: atan2_def, insert pi_gt_zero, linarith)
  next
    case 3
    then show ?thesis using y pi_gt_zero by (simp add: atan2_def)
  qed
qed

lemma atan2_first_quadrant: "0 < x \<Longrightarrow> 0 < y \<Longrightarrow> 0 < atan2 y x \<and> atan2 y x < pi / 2"
  using arctan_ubound [of "y / x"] by (simp add: atan2_def)

lemma Cartesian2Polar_y_axis_pos: "0 < y \<Longrightarrow> Cartesian2Polar 0 y = (y, pi / 2)"
  by (simp add: Cartesian2Polar_def atan2_def)

lemma Cartesian2Polar_y_axis_neg: "y < 0 \<Longrightarrow> Cartesian2Polar 0 y = (- y, - (pi / 2))"
  by (simp add: Cartesian2Polar_def atan2_def)

lemma Cartesian2Polar_x_axis_pos: "0 < x \<Longrightarrow> Cartesian2Polar x 0 = (x, 0)"
  by (simp add: Cartesian2Polar_def atan2_def)

lemma Cartesian2Polar_x_axis_neg: "x < 0 \<Longrightarrow> Cartesian2Polar x 0 = (- x, pi)"
  by (simp add: Cartesian2Polar_def atan2_def)

lemma Cartesian2Polar_origin: "Cartesian2Polar 0 0 = (0, 0)"
  by (simp add: Cartesian2Polar_def atan2_def)

subsection \<open>Solvers that accept or reject their input\<close>

lemma SLS_invalid: "NormalizeAngle phi \<le> 0 \<Longrightarrow> SLS x y phi p = p"
  by (simp add: SLS_def Let_def)

lemma SLS_invalid_y: "SLS x 0 phi p = p"
  by (simp add: SLS_def Let_def)

lemma LSL_invalid:
  assumes "y - 1 + cos phi < 0"
  shows "LSL x y phi p = p"
  using atan2_neg_y [OF assms, of "x - sin phi"]
  by (simp add: LSL_def Cartesian2Polar_def Let_def)

lemma LSL_valid:
  assumes "Cartesian2Polar (x - sin phi) (y - 1 + cos phi) = (u, t)"
    and "0 \<le> t" and "NormalizeAngle (phi - t) = v" and "0 \<le> v"
  shows "LSL x y phi p = p\<lparr>flag := True, param_u := u, param_t := t, param_v := v\<rparr>"
  using assms by (simp add: LSL_def Let_def)

lemma LSR_invalid:
  assumes "Cartesian2Polar (x + sin phi) (y - 1 - cos phi) = (r, t1)"
    and "NormalizeAngle (t1 + atan2 2 (sqrt (r * r - 4))) = t"
    and "t < 0 \<or> NormalizeAngle (t - phi) < 0"
  shows "LSR x y phi p = p"
  using assms by (auto simp: LSR_def Let_def)

lemma LRL_invalid_far:
  assumes "16 < (x - sin phi) * (x - sin phi) + (y - 1 + cos phi) * (y - 1 + cos phi)"
  shows "LRL x y phi p = p"
proof -
  have "sqrt 16 < sqrt ((x - sin phi) * (x - sin phi) + (y - 1 + cos phi) * (y - 1 + cos phi))"
    using assms by (simp only: real_sqrt_less_iff)
  moreover have "sqrt 16 = 4" by (rule real_sqrt_unique) simp_all
  ultimately show ?thesis by (simp add: LRL_def Cartesian2Polar_def Let_def)
qed

lemma LRL_invalid:
  assumes "Cartesian2Polar (x - sin phi) (y - 1 + cos phi) = (u1, t1)"
    and "NormalizeAngle (t1 + 0.5 * (- 2 * arcsin (0.25 * u1)) + pi) < 0"
  shows "LRL x y phi p = p"
  using assms by (auto simp: LRL_def Let_def)

lemma LRLRn_invalid_far:
  assumes "4 < (x + sin phi) * (x + sin phi) + (y - 1 - cos phi) * (y - 1 - cos phi)"
  shows "LRLRn x y phi p = p"
proof -
  have "sqrt 4 < sqrt ((x + sin phi) * (x + sin phi) + (y - 1 - cos phi) * (y - 1 - cos phi))"
    using assms by (simp only: real_sqrt_less_iff)
  moreover have "sqrt 4 = 2" by (rule real_sqrt_unique) simp_all
  ultimately show ?thesis by (simp add: LRLRn_def Let_def)
qed

lemma LRLRp_invalid_far:
  assumes "20 < (x + sin phi) * (x + sin phi) + (y - 1 - cos phi) * (y - 1 - cos phi)"
  shows "LRLRp x y phi p = p"
  using assms by (simp add: LRLRp_def Let_def)

lemma LRSLR_invalid:
  assumes "Cartesian2Polar (x + sin phi) (y - 1 - cos phi) = (rho, th)"
    and "NormalizeAngle (atan2 ((4 - (4 - sqrt (rho * rho - 4))) * (x + sin phi)
                                  - 2 * (y - 1 - cos phi))
                               (- 2 * (x + sin phi)
                                  + (4 - sqrt (rho * rho - 4) - 4) * (y - 1 - cos phi))) = t"
    and "t < 0 \<or> NormalizeAngle (t - phi) < 0"
  shows "LRSLR x y phi p = p"
  using assms by (auto simp: LRSLR_def Let_def)

lemma LRLRn_zero: "LRLRn 0 0 0 RSPParam_default = \<lparr>flag = True, param_t = 0, param_u = 0, param_v = 0\<rparr>"
  by (simp add: LRLRn_def calc_tau_omega_def Let_def atan2_0_pos RSPParam_default_def)

lemma LRLRp_zero: "LRLRp 0 0 0 RSPParam_default = \<lparr>flag = True, param_t = 0, param_u = 0, param_v = 0\<rparr>"
  by (simp add: LRLRp_def calc_tau_omega_def Let_def atan2_0_pos RSPParam_default_def)

text \<open>The four-turn solvers at two poses where the pair of \<open>calc_tau_omega\<close> is not zero.\<close>

lemma arccos_3_4: "0 < arccos (3 / 4) \<and> arccos (3 / 4) \<le> pi / 2"
proof -
  have "arccos 1 < arccos (3 / 4 :: real)" by (rule arccos_less_arccos) simp_all
  moreover have "arccos (3 / 4 :: real) \<le> pi / 2" by (rule arccos_le_pi2) simp_all
  ultimately show ?thesis by simp
qed

lemma arctan_3_4: "0 < arctan (3 / 4) \<and> arctan (3 / 4) < arccos (3 / 4)"
proof -
  have pos: "0 < arctan (3 / 4 :: real)" by simp
  have sq: "sqrt (25 / 16) = 5 / 4" by (rule real_sqrt_unique) (simp_all add: power2_eq_square)
  have "1 + (3 / 4)\<^sup>2 = (25 / 16 :: real)" by (simp add: power2_eq_square)
  then have "cos (arctan (3 / 4)) = 1 / sqrt (25 / 16)" by (simp only: cos_arctan)
  then have c: "cos (arctan (3 / 4)) = (4 / 5 :: real)" by (simp only: sq) simp
  have "arccos (cos (arctan (3 / 4))) = arctan (3 / 4 :: real)"
    using pos arctan_ubound [of "3 / 4"] pi_gt_zero by (intro arccos_cos) linarith+
  then have "arctan (3 / 4) = arccos (4 / 5 :: real)" by (simp add: c)
  moreover have "arccos (4 / 5) < arccos (3 / 4 :: real)" by (rule arccos_less_arccos) simp_all
  ultimately show ?thesis using pos by simp
qed

lemma calc_tau_omega_n:
  "calc_tau_omega (arccos (3 / 4)) 0 (3 / 5) (- (4 / 5)) 0 =
     (arctan (3 / 4), arctan (3 / 4) - arccos (3 / 4))"
proof -
  have d: "NormalizeAngle (arccos (3 / 4)) = arccos (3 / 4)"
    by (rule NormalizeAngle_id) (use arccos_3_4 pi_gt_zero in linarith)+
  have t1: "atan2 (3 / 5) (4 / 5) = arctan (3 / 4)" by (simp add: atan2_def)
  have tau: "NormalizeAngle (arctan (3 / 4)) = arctan (3 / 4)"
    by (rule NormalizeAngle_id) (use arctan_3_4 arccos_3_4 pi_gt_zero in linarith)+
  have om: "NormalizeAngle (arctan (3 / 4) - arccos (3 / 4)) = arctan (3 / 4) - arccos (3 / 4)"
    by (rule NormalizeAngle_id) (use arctan_3_4 arccos_3_4 pi_gt_zero in linarith)+
  show ?thesis
    by (simp add: calc_tau_omega_def Let_def d t1 tau om)
qed

lemma LRLRn_example:
  "LRLRn (3 / 5) (6 / 5) 0 RSPParam_default =
     \<lparr>flag = True, param_t = 0, param_u = arccos (3 / 4), param_v = 0\<rparr>"
proof -
  have s: "sqrt (3 / 5 * (3 / 5) + (6 / 5 - 1 - 1) * (6 / 5 - 1 - 1)) = (1 :: real)"
    by (rule real_sqrt_unique) simp_all
  show ?thesis
    using arctan_3_4
    by (simp add: LRLRn_def Let_def s RSPParam_default_def del: real_sqrt_eq_1_iff)
       (simp add: calc_tau_omega_n)
qed

lemma arctan_half: "0 < arctan (1 / 2) \<and> arctan (1 / 2) < pi / 2"
  using arctan_ubound [of "1 / 2"] by simp

lemma calc_tau_omega_p:
  "calc_tau_omega (- (pi / 2)) 0 2 (- 4) 0 = (arctan (1 / 2), arctan (1 / 2) + pi / 2)"
proof -
  have d: "NormalizeAngle (- (pi / 2)) = - (pi / 2)"
    by (rule NormalizeAngle_id) (use pi_gt_zero in linarith)+
  have t1: "atan2 2 4 = arctan (1 / 2)" by (simp add: atan2_def)
  have tau: "NormalizeAngle (arctan (1 / 2)) = arctan (1 / 2)"
    by (rule NormalizeAngle_id) (use arctan_half pi_gt_zero in linarith)+
  have om: "NormalizeAngle (arctan (1 / 2) + pi / 2) = arctan (1 / 2) + pi / 2"
    by (rule NormalizeAngle_id) (use arctan_half pi_gt_zero in linarith)+
  show ?thesis
    by (simp add: calc_tau_omega_def Let_def d t1 tau om)
qed

lemma LRLRp_example:
  "LRLRp 2 (- 2) 0 RSPParam_default =
     \<lparr>flag = True, param_t = 0, param_u = - (pi / 2), param_v = 0\<rparr>"
  using arctan_half
  by (simp add: LRLRp_def Let_def RSPParam_default_def calc_tau_omega_p)

subsection \<open>The solvers at the poses \<open>(0, 5, \<pi>)\<close> and \<open>(5, 0, \<pi>)\<close> and their variants\<close>

lemma theta21: "0 < atan2 2 (sqrt 21) \<and> atan2 2 (sqrt 21) < pi / 2"
  by (rule atan2_first_quadrant) simp_all

lemma LSL_0_5_pi:
  "LSL 0 5 pi p = p\<lparr>flag := True, param_u := 3, param_t := pi / 2, param_v := pi / 2\<rparr>"
proof (rule LSL_valid)
  show "Cartesian2Polar (0 - sin pi) (5 - 1 + cos pi) = (3, pi / 2)"
    by (simp add: Cartesian2Polar_y_axis_pos)
  show "NormalizeAngle (pi - pi / 2) = pi / 2"
    by (rule trans [OF NormalizeAngle_id]) simp_all
qed simp_all

lemma LSL_0_5_mpi:
  "LSL 0 5 (- pi) p = p\<lparr>flag := True, param_u := 3, param_t := pi / 2, param_v := pi / 2\<rparr>"
proof (rule LSL_valid)
  show "Cartesian2Polar (0 - sin (- pi)) (5 - 1 + cos (- pi)) = (3, pi / 2)"
    by (simp add: Cartesian2Polar_y_axis_pos)
  show "NormalizeAngle (- pi - pi / 2) = pi / 2"
    by (rule trans [OF NormalizeAngle_plus]) simp_all
qed simp_all

lemma LSR_0_5_pi: "LSR 0 5 pi p = p"
proof (rule LSR_invalid)
  show "Cartesian2Polar (0 + sin pi) (5 - 1 - cos pi) = (5, pi / 2)"
    by (simp add: Cartesian2Polar_y_axis_pos)
  show "NormalizeAngle (pi / 2 + atan2 2 (sqrt (5 * 5 - 4))) = pi / 2 + atan2 2 (sqrt 21)"
    using theta21 by (simp add: NormalizeAngle_id)
  have "NormalizeAngle (pi / 2 + atan2 2 (sqrt 21) - pi) = pi / 2 + atan2 2 (sqrt 21) - pi"
    by (rule NormalizeAngle_id) (use theta21 in linarith)+
  then show "pi / 2 + atan2 2 (sqrt 21) < 0 \<or>
        NormalizeAngle (pi / 2 + atan2 2 (sqrt 21) - pi) < 0"
    using theta21 by simp
qed

lemma LSR_0_5_mpi: "LSR 0 5 (- pi) p = p"
proof (rule LSR_invalid)
  show "Cartesian2Polar (0 + sin (- pi)) (5 - 1 - cos (- pi)) = (5, pi / 2)"
    by (simp add: Cartesian2Polar_y_axis_pos)
  show "NormalizeAngle (pi / 2 + atan2 2 (sqrt (5 * 5 - 4))) = pi / 2 + atan2 2 (sqrt 21)"
    using theta21 by (simp add: NormalizeAngle_id)
  have "NormalizeAngle (pi / 2 + atan2 2 (sqrt 21) - - pi)
          = pi / 2 + atan2 2 (sqrt 21) - - pi - 2 * pi"
    by (rule NormalizeAngle_minus) (use theta21 in linarith)+
  then show "pi / 2 + atan2 2 (sqrt 21) < 0 \<or>
        NormalizeAngle (pi / 2 + atan2 2 (sqrt 21) - - pi) < 0"
    using theta21 by simp
qed

lemma LSR_0_m5: "sin phi = 0 \<Longrightarrow> cos phi = - 1 \<Longrightarrow> LSR 0 (- 5) phi p = p"
proof (rule LSR_invalid)
  assume a: "sin phi = 0" "cos phi = - 1"
  show "Cartesian2Polar (0 + sin phi) (- 5 - 1 - cos phi) = (5, - (pi / 2))"
    by (simp add: a Cartesian2Polar_y_axis_neg)
  show "NormalizeAngle (- (pi / 2) + atan2 2 (sqrt (5 * 5 - 4))) = - (pi / 2) + atan2 2 (sqrt 21)"
    using theta21 by (simp add: NormalizeAngle_id)
  show "- (pi / 2) + atan2 2 (sqrt 21) < 0 \<or>
        NormalizeAngle (- (pi / 2) + atan2 2 (sqrt 21) - phi) < 0"
    using theta21 by simp
qed

lemma LRL_0_5: "sin phi = 0 \<Longrightarrow> cos phi = - 1 \<Longrightarrow> LRL 0 5 phi p = p"
proof (rule LRL_invalid)
  assume a: "sin phi = 0" "cos phi = - 1"
  show "Cartesian2Polar (0 - sin phi) (5 - 1 + cos phi) = (3, pi / 2)"
    by (simp add: a Cartesian2Polar_y_axis_pos)
  have b: "- (pi / 2) < arcsin (3 / 4)" "arcsin (3 / 4) < pi / 2"
    using arcsin_lt_bounded [of "3 / 4"] by simp_all
  have "NormalizeAngle (pi / 2 + 0.5 * (- 2 * arcsin (0.25 * 3)) + pi)
          = pi / 2 + 0.5 * (- 2 * arcsin (0.25 * 3)) + pi - 2 * pi"
    by (rule NormalizeAngle_minus) (use b in simp_all)
  then show "NormalizeAngle (pi / 2 + 0.5 * (- 2 * arcsin (0.25 * 3)) + pi) < 0"
    using b by simp
qed

lemma LRSLR_0_5: "sin phi = 0 \<Longrightarrow> cos phi = - 1 \<Longrightarrow> LRSLR 0 5 phi p = p"
proof (rule LRSLR_invalid)
  assume a: "sin phi = 0" "cos phi = - 1"
  let ?t = "atan2 (- 10) (- (sqrt 21 * 5))"
  show "Cartesian2Polar (0 + sin phi) (5 - 1 - cos phi) = (5, pi / 2)"
    by (simp add: a Cartesian2Polar_y_axis_pos)
  have "- pi < ?t \<and> ?t < 0" by (rule atan2_neg_y) simp
  then have t: "- pi < ?t" "?t < 0" by blast+
  show "NormalizeAngle (atan2 ((4 - (4 - sqrt (5 * 5 - 4))) * (0 + sin phi)
                                  - 2 * (5 - 1 - cos phi))
                               (- 2 * (0 + sin phi)
                                  + (4 - sqrt (5 * 5 - 4) - 4) * (5 - 1 - cos phi))) = ?t"
    using t by (simp add: a NormalizeAngle_id)
  show "?t < 0 \<or> NormalizeAngle (?t - phi) < 0" using t by simp
qed

lemma LRSLR_0_m5_pi: "LRSLR 0 (- 5) pi p = p"
proof (rule LRSLR_invalid)
  let ?t = "atan2 10 (sqrt 21 * 5)"
  show "Cartesian2Polar (0 + sin pi) (- 5 - 1 - cos pi) = (5, - (pi / 2))"
    by (simp add: Cartesian2Polar_y_axis_neg)
  have "0 < ?t \<and> ?t < pi" by (rule atan2_pos_y) simp
  then have t: "0 < ?t" "?t < pi" by blast+
  show "NormalizeAngle (atan2 ((4 - (4 - sqrt (5 * 5 - 4))) * (0 + sin pi)
                                  - 2 * (- 5 - 1 - cos pi))
                               (- 2 * (0 + sin pi)
                                  + (4 - sqrt (5 * 5 - 4) - 4) * (- 5 - 1 - cos pi))) = ?t"
    using t by (simp add: NormalizeAngle_id)
  have "NormalizeAngle (?t - pi) = ?t - pi"
    by (rule NormalizeAngle_id) (use t in linarith)+
  then show "?t < 0 \<or> NormalizeAngle (?t - pi) < 0" using t by simp
qed

lemma LRSLR_0_m5_mpi: "LRSLR 0 (- 5) (- pi) p = p"
proof (rule LRSLR_invalid)
  let ?t = "atan2 10 (sqrt 21 * 5)"
  show "Cartesian2Polar (0 + sin (- pi)) (- 5 - 1 - cos (- pi)) = (5, - (pi / 2))"
    by (simp add: Cartesian2Polar_y_axis_neg)
  have "0 < ?t \<and> ?t < pi" by (rule atan2_pos_y) simp
  then have t: "0 < ?t" "?t < pi" by blast+
  show "NormalizeAngle (atan2 ((4 - (4 - sqrt (5 * 5 - 4))) * (0 + sin (- pi))
                                  - 2 * (- 5 - 1 - cos (- pi)))
                               (- 2 * (0 + sin (- pi))
                                  + (4 - sqrt (5 * 5 - 4) - 4) * (- 5 - 1 - cos (- pi)))) = ?t"
    using t by (simp add: NormalizeAngle_id)
  have "NormalizeAngle (?t - - pi) = ?t - - pi - 2 * pi"
    by (rule NormalizeAngle_minus) (use t in linarith)+
  then show "?t < 0 \<or> NormalizeAngle (?t - - pi) < 0" using t by simp
qed

lemma LSR_5_0_pi: "LSR 5 0 pi p = p"
proof (rule LSR_invalid)
  show "Cartesian2Polar (5 + sin pi) (0 - 1 - cos pi) = (5, 0)"
    by (simp add: Cartesian2Polar_x_axis_pos)
  show "NormalizeAngle (0 + atan2 2 (sqrt (5 * 5 - 4))) = atan2 2 (sqrt 21)"
    using theta21 by (simp add: NormalizeAngle_id)
  have "NormalizeAngle (atan2 2 (sqrt 21) - pi) = atan2 2 (sqrt 21) - pi"
    by (rule NormalizeAngle_id) (use theta21 in linarith)+
  then show "atan2 2 (sqrt 21) < 0 \<or> NormalizeAngle (atan2 2 (sqrt 21) - pi) < 0"
    using theta21 by simp
qed

lemma LSR_5_0_mpi: "LSR 5 0 (- pi) p = p"
proof (rule LSR_invalid)
  show "Cartesian2Polar (5 + sin (- pi)) (0 - 1 - cos (- pi)) = (5, 0)"
    by (simp add: Cartesian2Polar_x_axis_pos)
  show "NormalizeAngle (0 + atan2 2 (sqrt (5 * 5 - 4))) = atan2 2 (sqrt 21)"
    using theta21 by (simp add: NormalizeAngle_id)
  have "NormalizeAngle (atan2 2 (sqrt 21) - - pi) = atan2 2 (sqrt 21) - - pi - 2 * pi"
    by (rule NormalizeAngle_minus) (use theta21 in linarith)+
  then show "atan2 2 (sqrt 21) < 0 \<or> NormalizeAngle (atan2 2 (sqrt 21) - - pi) < 0"
    using theta21 by simp
qed

lemma LSR_m5_0: "sin phi = 0 \<Longrightarrow> cos phi = - 1 \<Longrightarrow> LSR (- 5) 0 phi p = p"
proof (rule LSR_invalid)
  assume a: "sin phi = 0" "cos phi = - 1"
  show "Cartesian2Polar (- 5 + sin phi) (0 - 1 - cos phi) = (5, pi)"
    by (simp add: a Cartesian2Polar_x_axis_neg)
  have "NormalizeAngle (pi + atan2 2 (sqrt 21)) = pi + atan2 2 (sqrt 21) - 2 * pi"
    by (rule NormalizeAngle_minus) (use theta21 in linarith)+
  then show "NormalizeAngle (pi + atan2 2 (sqrt (5 * 5 - 4))) = atan2 2 (sqrt 21) - pi"
    by simp
  show "atan2 2 (sqrt 21) - pi < 0 \<or> NormalizeAngle (atan2 2 (sqrt 21) - pi - phi) < 0"
    using theta21 by simp
qed

lemma LRSLR_5_0_pi: "LRSLR 5 0 pi p = p"
proof (rule LRSLR_invalid)
  let ?t = "atan2 (sqrt 21 * 5) (- 10)"
  show "Cartesian2Polar (5 + sin pi) (0 - 1 - cos pi) = (5, 0)"
    by (simp add: Cartesian2Polar_x_axis_pos)
  have "0 < ?t \<and> ?t < pi" by (rule atan2_pos_y) simp
  then have t: "0 < ?t" "?t < pi" by blast+
  show "NormalizeAngle (atan2 ((4 - (4 - sqrt (5 * 5 - 4))) * (5 + sin pi)
                                  - 2 * (0 - 1 - cos pi))
                               (- 2 * (5 + sin pi)
                                  + (4 - sqrt (5 * 5 - 4) - 4) * (0 - 1 - cos pi))) = ?t"
    using t by (simp add: NormalizeAngle_id)
  have "NormalizeAngle (?t - pi) = ?t - pi"
    by (rule NormalizeAngle_id) (use t in linarith)+
  then show "?t < 0 \<or> NormalizeAngle (?t - pi) < 0" using t by simp
qed

lemma LRSLR_5_0_mpi: "LRSLR 5 0 (- pi) p = p"
proof (rule LRSLR_invalid)
  let ?t = "atan2 (sqrt 21 * 5) (- 10)"
  show "Cartesian2Polar (5 + sin (- pi)) (0 - 1 - cos (- pi)) = (5, 0)"
    by (simp add: Cartesian2Polar_x_axis_pos)
  have "0 < ?t \<and> ?t < pi" by (rule atan2_pos_y) simp
  then have t: "0 < ?t" "?t < pi" by blast+
  show "NormalizeAngle (atan2 ((4 - (4 - sqrt (5 * 5 - 4))) * (5 + sin (- pi))
                                  - 2 * (0 - 1 - cos (- pi)))
                               (- 2 * (5 + sin (- pi))
                                  + (4 - sqrt (5 * 5 - 4) - 4) * (0 - 1 - cos (- pi)))) = ?t"
    using t by (simp add: NormalizeAngle_id)
  have "NormalizeAngle (?t - - pi) = ?t - - pi - 2 * pi"
    by (rule NormalizeAngle_minus) (use t in linarith)+
  then show "?t < 0 \<or> NormalizeAngle (?t - - pi) < 0" using t by simp
qed

lemma LRSLR_m5_0: "sin phi = 0 \<Longrightarrow> cos phi = - 1 \<Longrightarrow> LRSLR (- 5) 0 phi p = p"
proof (rule LRSLR_invalid)
  assume a: "sin phi = 0" "cos phi = - 1"
  let ?t = "atan2 (- (sqrt 21 * 5)) 10"
  show "Cartesian2Polar (- 5 + sin phi) (0 - 1 - cos phi) = (5, pi)"
    by (simp add: a Cartesian2Polar_x_axis_neg)
  have "- pi < ?t \<and> ?t < 0" by (rule atan2_neg_y) simp
  then have t: "- pi < ?t" "?t < 0" by blast+
  show "NormalizeAngle (atan2 ((4 - (4 - sqrt (5 * 5 - 4))) * (- 5 + sin phi)
                                  - 2 * (0 - 1 - cos phi))
                               (- 2 * (- 5 + sin phi)
                                  + (4 - sqrt (5 * 5 - 4) - 4) * (0 - 1 - cos phi))) = ?t"
    using t by (simp add: a NormalizeAngle_id)
  show "?t < 0 \<or> NormalizeAngle (?t - phi) < 0" using t by simp
qed

lemmas pose_0_5_pi =
  SLS_invalid [of pi, simplified NormalizeAngle_pi, simplified]
  SLS_invalid [of "- pi", simplified NormalizeAngle_minus_pi, simplified]
  LSL_0_5_pi LSL_0_5_mpi
  LSL_invalid [of "- 5" pi, simplified] LSL_invalid [of "- 5" "- pi", simplified]
  LSR_0_5_pi LSR_0_5_mpi
  LSR_0_m5 [of pi, simplified] LSR_0_m5 [of "- pi", simplified]
  LRL_0_5 [of pi, simplified] LRL_0_5 [of "- pi", simplified]
  LRL_invalid_far [of 0 pi "- 5", simplified] LRL_invalid_far [of 0 "- pi" "- 5", simplified]
  LRLRn_invalid_far [of 0 pi 5, simplified] LRLRn_invalid_far [of 0 "- pi" 5, simplified]
  LRLRn_invalid_far [of 0 pi "- 5", simplified] LRLRn_invalid_far [of 0 "- pi" "- 5", simplified]
  LRLRp_invalid_far [of 0 pi 5, simplified] LRLRp_invalid_far [of 0 "- pi" 5, simplified]
  LRLRp_invalid_far [of 0 pi "- 5", simplified] LRLRp_invalid_far [of 0 "- pi" "- 5", simplified]
  LRSLR_0_5 [of pi, simplified] LRSLR_0_5 [of "- pi", simplified]
  LRSLR_0_m5_pi LRSLR_0_m5_mpi

lemma blocks_0_5_pi:
  "concat (map (block_paths rs) (all_blocks 0 5 pi)) =
     [assembled rs [pi / 2, 3, pi / 2] ''LSL'', assembled rs [- (pi / 2), - 3, - (pi / 2)] ''LSL'']"
  by (simp add: all_blocks_def SCS_blocks_def CSC_blocks_def CCC_blocks_def CCCC_blocks_def
      CCSC_blocks_def CCSCC_blocks_def Let_def pose_0_5_pi RSPParam_default_def)

lemma blocks_0_m5_mpi:
  "concat (map (block_paths rs) (all_blocks 0 (- 5) (- pi))) =
     [assembled rs [pi / 2, 3, pi / 2] ''RSR'', assembled rs [- (pi / 2), - 3, - (pi / 2)] ''RSR'']"
  by (simp add: all_blocks_def SCS_blocks_def CSC_blocks_def CCC_blocks_def CCCC_blocks_def
      CCSC_blocks_def CCSCC_blocks_def Let_def pose_0_5_pi RSPParam_default_def)

lemmas pose_5_0_pi =
  SLS_invalid_y
  LSL_invalid [of 0 pi, simplified] LSL_invalid [of 0 "- pi", simplified]
  LSR_5_0_pi LSR_5_0_mpi
  LSR_m5_0 [of pi, simplified] LSR_m5_0 [of "- pi", simplified]
  LRL_invalid_far [of 5 pi 0, simplified] LRL_invalid_far [of 5 "- pi" 0, simplified]
  LRL_invalid_far [of "- 5" pi 0, simplified] LRL_invalid_far [of "- 5" "- pi" 0, simplified]
  LRLRn_invalid_far [of 5 pi 0, simplified] LRLRn_invalid_far [of 5 "- pi" 0, simplified]
  LRLRn_invalid_far [of "- 5" pi 0, simplified] LRLRn_invalid_far [of "- 5" "- pi" 0, simplified]
  LRLRp_invalid_far [of 5 pi 0, simplified] LRLRp_invalid_far [of 5 "- pi" 0, simplified]
  LRLRp_invalid_far [of "- 5" pi 0, simplified] LRLRp_invalid_far [of "- 5" "- pi" 0, simplified]
  LRSLR_5_0_pi LRSLR_5_0_mpi
  LRSLR_m5_0 [of pi, simplified] LRSLR_m5_0 [of "- pi", simplified]

lemma blocks_m5_0_mpi:
  "concat (map (block_paths rs) (all_blocks (- 5) 0 (- pi))) = []"
  by (simp add: all_blocks_def SCS_blocks_def CSC_blocks_def CCC_blocks_def CCCC_blocks_def
      CCSC_blocks_def CCSCC_blocks_def Let_def pose_5_0_pi RSPParam_default_def)

subsection \<open>Discretizer on a path of one short arc\<close>

lemma walk_stop: "\<bar>l\<bar> < \<bar>pd\<bar> \<Longrightarrow> walk rs m l d ox oy ophi index pd b = Inr (index, pd, b)"
  by (simp add: walk.simps)

lemma replicate_4: "replicate 4 x = [x, x, x, x]"
  by (simp add: numeral_eq_Suc)

lemma sin_nonzero: "l \<noteq> 0 \<Longrightarrow> \<bar>l\<bar> < pi \<Longrightarrow> sin l \<noteq> 0"
proof -
  assume a: "l \<noteq> 0" "\<bar>l\<bar> < pi"
  show ?thesis
  proof (cases "0 < l")
    case True
    then have "0 < sin l" using a by (intro sin_gt_zero) simp_all
    then show ?thesis by simp
  next
    case False
    then have "0 < sin (- l)" using a by (intro sin_gt_zero) simp_all
    then show ?thesis by simp
  qed
qed

lemma trim_trailing_4:
  "a \<noteq> 0 \<Longrightarrow>
   trim_trailing \<lparr>px = [0, a, 0, 0], py = [y0, y1, y2, y3], pphi = [p0, p1, p2, p3],
                  pgear = [g0, g1, g2, g3]\<rparr> =
     Inr \<lparr>px = [0, a], py = [y0, y1], pphi = [p0, p1], pgear = [g0, g1]\<rparr>"
  by (subst trim_trailing.simps, simp)+

lemma trim_trailing_4_zero:
  "trim_trailing \<lparr>px = [0, 0, 0, 0], py = [y0, y1, y2, y3], pphi = [p0, p1, p2, p3],
                  pgear = [g0, g1, g2, g3]\<rparr> = Inl UndefinedBehaviour"
  by (subst trim_trailing.simps, simp)+

lemma segment_step_short_arc:
  assumes "0 < step_size rs" "\<bar>l\<bar> < step_size rs" "m = CHR ''L'' \<or> m = CHR ''R''"
  shows "segment_step rs (arc m l) 0
           (1, 0, \<lparr>px = [0, 0, 0, 0], py = [0, 0, 0, 0], pphi = [0, 0, 0, 0],
                    pgear = [0 < l, True, True, True]\<rparr>) =
         Inr (1, if 0 < l then l - 2 * step_size rs else l + 2 * step_size rs,
              \<lparr>px = [0, sin l / max_kappa rs, 0, 0],
               py = [0, if m = CHR ''L'' then (1 - cos l) / max_kappa rs
                        else (1 - cos l) / - max_kappa rs, 0, 0],
               pphi = [0, if m = CHR ''L'' then l else - l, 0, 0], pgear = [0 < l, 0 < l, True, True]\<rparr>)"
proof -
  have w: "\<And>m ox oy ophi index b. walk rs m l (step_size rs) ox oy ophi index (step_size rs) b
             = Inr (index, step_size rs, b)"
    using assms by (intro walk_stop) simp
  have w': "\<And>m ox oy ophi index b. walk rs m l (- step_size rs) ox oy ophi index (- step_size rs) b
             = Inr (index, - step_size rs, b)"
    using assms by (intro walk_stop) simp
  show ?thesis
    using assms
    by (auto simp: bind_err_def read_at_def
        assign_at_def segment_step_def Let_def w w' Interpolation_def)
qed

lemma discretize_arc:
  assumes "0 < step_size rs" "\<bar>l\<bar> < step_size rs" "m = CHR ''L'' \<or> m = CHR ''R''"
  shows "discretize rs start_node (arc m l) =
     bind_err (trim_trailing \<lparr>px = [0, sin l / max_kappa rs, 0, 0],
               py = [0, if m = CHR ''L'' then (1 - cos l) / max_kappa rs
                        else (1 - cos l) / - max_kappa rs, 0, 0],
               pphi = [0, if m = CHR ''L'' then l else - l, 0, 0], pgear = [0 < l, 0 < l, True, True]\<rparr>) (\<lambda>b.
         if length (py b) < length (px b) \<or> length (pphi b) < length (px b)
         then Inl OutOfRange
         else Inr ((arc m l)\<lparr>
           path_x := path_x (arc m l) @
             map (\<lambda>i. cos (- GetPhi start_node) * px b ! i
                      + sin (- GetPhi start_node) * py b ! i + GetX start_node)
                 [0 ..< length (px b)],
           path_y := path_y (arc m l) @
             map (\<lambda>i. - sin (- GetPhi start_node) * px b ! i
                      + cos (- GetPhi start_node) * py b ! i + GetY start_node)
                 [0 ..< length (px b)],
           path_phi := path_phi (arc m l) @
             map (\<lambda>i. NormalizeAngle (pphi b ! i + GetPhi start_node))
                 [0 ..< length (px b)],
           path_gear := pgear b,
           segs_lengths := map (\<lambda>l. l / max_kappa rs) (segs_lengths (arc m l)),
           total_length := total_length (arc m l) / max_kappa rs\<rparr>))"
proof -
  have "0 \<le> \<bar>l\<bar> / step_size rs" "\<bar>l\<bar> / step_size rs < 1" using assms by simp_all
  then have pn: "\<lfloor>\<bar>l\<bar> / step_size rs\<rfloor> = 0" by (simp add: floor_eq_iff)
  show ?thesis
    unfolding discretize_def
    by (simp add: pn replicate_4 bind_err_def read_at_def assign_at_def Let_def
        segment_step_short_arc [OF assms] )
qed

lemma discretize_short_arc:
  assumes "0 < max_kappa rs" "0 < step_size rs" "l \<noteq> 0" "\<bar>l\<bar> < step_size rs" "\<bar>l\<bar> < pi"
    and "m = CHR ''L'' \<or> m = CHR ''R''"
  shows "\<exists>path'. discretize rs start_node (arc m l) = Inr path'"
proof -
  have s: "sin l / max_kappa rs \<noteq> 0" using assms sin_nonzero [of l] by simp
  show ?thesis
    by (simp add: discretize_arc [OF assms(2,4,6)] trim_trailing_4 [OF s] bind_err_def)
qed

lemma discretize_zero_arc:
  assumes "0 < step_size rs" "m = CHR ''L'' \<or> m = CHR ''R''"
  shows "discretize rs start_node (arc m 0) = Inl UndefinedBehaviour"
  using assms by (simp add: discretize_arc trim_trailing_4_zero bind_err_def)

subsection \<open>Three searches\<close>

lemma candidates_at_0_5_pi:
  assumes "normalized rs s g = (0, 5, pi)" "platform rs = LP64"
  shows "candidates rs s g = [arc CHR ''L'' (pi / 2), arc CHR ''L'' (- (pi / 2))]"
  using assms by (simp add: candidates_def blocks_0_5_pi assembled_LP64)

lemma candidates_at_0_m5_mpi:
  assumes "normalized rs s g = (0, - 5, - pi)" "platform rs = LP64"
  shows "candidates rs s g = [arc CHR ''R'' (pi / 2), arc CHR ''R'' (- (pi / 2))]"
  using assms by (simp add: candidates_def blocks_0_m5_mpi assembled_LP64)

lemma candidates_at_m5_0_mpi:
  assumes "normalized rs s g = (- 5, 0, - pi)"
  shows "candidates rs s g = []"
  using assms by (simp add: candidates_def blocks_m5_0_mpi)

lemma ShortestRSP_two_arcs:
  assumes c: "candidates rs s g = [arc m (pi / 2), arc m (- (pi / 2))]"
    and k: "0 < max_kappa rs" and st: "step_size rs = 2"
    and m: "m = CHR ''L'' \<or> m = CHR ''R''"
  shows "ShortestRSP rs s g = Inr (Some (arc m (pi / 2)))"
proof -
  have h: "\<bar>pi / 2\<bar> < step_size rs" "\<bar>- (pi / 2)\<bar> < step_size rs"
    using pi_half_less_two by (simp_all add: st)
  obtain p1 where p1: "discretize rs s (arc m (pi / 2)) = Inr p1"
    using discretize_short_arc [OF k _ _ h(1) _ m, of s] st by auto
  obtain p2 where p2: "discretize rs s (arc m (- (pi / 2))) = Inr p2"
    using discretize_short_arc [OF k _ _ h(2) _ m, of s] st by auto
  show ?thesis
    by (simp add: ShortestRSP_eq c p1 p2 read_at_def)
qed

lemma candidates_goal_ahead:
  assumes "platform rs = LP64" and "normalized rs s g = (x, 0, 0)" and "0 \<le> x"
  shows "\<exists>rest. candidates rs s g = arc CHR ''L'' 0 # rest"
proof -
  have polar: "Cartesian2Polar x 0 = (x, 0)"
    using assms(3) by (cases "x = 0") (simp_all add: Cartesian2Polar_origin Cartesian2Polar_x_axis_pos)
  have lsl: "LSL x 0 0 p = p\<lparr>flag := True, param_u := x, param_t := 0, param_v := 0\<rparr>" for p
    by (rule LSL_valid) (simp_all add: polar)
  show ?thesis
    by (simp add: candidates_def assms(2) all_blocks_def SCS_blocks_def CSC_blocks_def Let_def
        SLS_invalid_y lsl assembled_LP64 [OF assms(1)] RSPParam_default_def)
qed

lemma ShortestRSP_goal_ahead:
  assumes "0 < step_size rs" and "platform rs = LP64"
    and "normalized rs s g = (x, 0, 0)" and "0 \<le> x"
  shows "ShortestRSP rs s g = Inl UndefinedBehaviour"
proof -
  obtain rest where c: "candidates rs s g = arc CHR ''L'' 0 # rest"
    using candidates_goal_ahead [OF assms(2,3,4)] by auto
  show ?thesis
    by (simp add: ShortestRSP_eq c discretize_zero_arc [OF assms(1)])
qed

lemma candidates_same_pose:
  assumes "platform rs = LP64"
  shows "\<exists>rest. candidates rs s s = arc CHR ''L'' 0 # rest"
  by (rule candidates_goal_ahead [OF assms, of s s 0]) (simp_all add: normalized_def)

lemma ShortestRSP_same_pose:
  assumes "0 < step_size rs" "platform rs = LP64"
  shows "ShortestRSP rs s s = Inl UndefinedBehaviour"
  by (rule ShortestRSP_goal_ahead [OF assms, of s s 0]) (simp_all add: normalized_def)

lemma ShortestRSP_five_metres_ahead:
  "ShortestRSP \<lparr>max_kappa = 1, step_size = 1 / 2, platform = LP64\<rparr>
     \<lparr>GetX = 0, GetY = 0, GetPhi = 0\<rparr> \<lparr>GetX = 5, GetY = 0, GetPhi = 0\<rparr>
   = Inl UndefinedBehaviour"
  by (rule ShortestRSP_goal_ahead [of _ _ _ 5]) (simp_all add: normalized_def)

lemma normalized_ahead_left:
  "normalized \<lparr>max_kappa = 1 / 2, step_size = 2, platform = LP64\<rparr>
     \<lparr>GetX = 0, GetY = 0, GetPhi = 0\<rparr> \<lparr>GetX = 0, GetY = 10, GetPhi = pi\<rparr> = (0, 5, pi)"
  by (simp add: normalized_def)

lemma normalized_ahead_right:
  "normalized \<lparr>max_kappa = 1 / 2, step_size = 2, platform = LP64\<rparr>
     \<lparr>GetX = 0, GetY = 0, GetPhi = 0\<rparr>
     (mirror_goal \<lparr>GetX = 0, GetY = 0, GetPhi = 0\<rparr> \<lparr>GetX = 0, GetY = 10, GetPhi = pi\<rparr>)
   = (0, - 5, - pi)"
  by (simp add: normalized_def mirror_goal_def goal_offset_def pose_at_offset_def Let_def)

lemma normalized_diagonal:
  "normalized \<lparr>max_kappa = sqrt 2 / 2, step_size = 2, platform = LP64\<rparr>
     \<lparr>GetX = 0, GetY = 0, GetPhi = pi / 4\<rparr> \<lparr>GetX = - 5, GetY = 5, GetPhi = 5 * pi / 4\<rparr>
   = (0, 5, pi)"
  by (simp add: normalized_def cos_45 sin_45)

lemma normalized_diagonal_behind:
  "normalized \<lparr>max_kappa = sqrt 2 / 2, step_size = 2, platform = LP64\<rparr>
     \<lparr>GetX = 0, GetY = 0, GetPhi = pi / 4\<rparr> \<lparr>GetX = - 5, GetY = - 5, GetPhi = - (3 * pi / 4)\<rparr>
   = (- 5, 0, - pi)"
  by (simp add: normalized_def cos_45 sin_45)

lemma normalized_diagonal_right:
  "normalized \<lparr>max_kappa = sqrt 2 / 2, step_size = 2, platform = LP64\<rparr>
     \<lparr>GetX = 0, GetY = 0, GetPhi = pi / 4\<rparr> \<lparr>GetX = 5, GetY = - 5, GetPhi = - (3 * pi / 4)\<rparr>
   = (0, - 5, - pi)"
  by (simp add: normalized_def cos_45 sin_45)

lemma mirror_goal_diagonal:
  "mirror_goal \<lparr>GetX = 0, GetY = 0, GetPhi = pi / 4\<rparr>
     \<lparr>GetX = - 5, GetY = 5, GetPhi = 5 * pi / 4\<rparr> =
     \<lparr>GetX = 5, GetY = - 5, GetPhi = - (3 * pi / 4)\<rparr>"
  by (simp add: mirror_goal_def goal_offset_def pose_at_offset_def Let_def cos_45 sin_45)

lemma ShortestRSP_ahead_left:
  "ShortestRSP \<lparr>max_kappa = 1 / 2, step_size = 2, platform = LP64\<rparr>
     \<lparr>GetX = 0, GetY = 0, GetPhi = 0\<rparr> \<lparr>GetX = 0, GetY = 10, GetPhi = pi\<rparr> =
   Inr (Some (arc CHR ''L'' (pi / 2)))"
  by (rule ShortestRSP_two_arcs [OF candidates_at_0_5_pi [OF normalized_ahead_left]]) simp_all

lemma ShortestRSP_ahead_right:
  "ShortestRSP \<lparr>max_kappa = 1 / 2, step_size = 2, platform = LP64\<rparr>
     \<lparr>GetX = 0, GetY = 0, GetPhi = 0\<rparr>
     (mirror_goal \<lparr>GetX = 0, GetY = 0, GetPhi = 0\<rparr> \<lparr>GetX = 0, GetY = 10, GetPhi = pi\<rparr>) =
   Inr (Some (arc CHR ''R'' (pi / 2)))"
  by (rule ShortestRSP_two_arcs [OF candidates_at_0_m5_mpi [OF normalized_ahead_right]]) simp_all

lemma ShortestRSP_diagonal:
  "ShortestRSP \<lparr>max_kappa = sqrt 2 / 2, step_size = 2, platform = LP64\<rparr>
     \<lparr>GetX = 0, GetY = 0, GetPhi = pi / 4\<rparr> \<lparr>GetX = - 5, GetY = 5, GetPhi = 5 * pi / 4\<rparr> =
   Inr (Some (arc CHR ''L'' (pi / 2)))"
  by (rule ShortestRSP_two_arcs [OF candidates_at_0_5_pi [OF normalized_diagonal]]) simp_all

lemma ShortestRSP_diagonal_right:
  "ShortestRSP \<lparr>max_kappa = sqrt 2 / 2, step_size = 2, platform = LP64\<rparr>
     \<lparr>GetX = 0, GetY = 0, GetPhi = pi / 4\<rparr> \<lparr>GetX = 5, GetY = - 5, GetPhi = - (3 * pi / 4)\<rparr> =
   Inr (Some (arc CHR ''R'' (pi / 2)))"
  by (rule ShortestRSP_two_arcs [OF candidates_at_0_m5_mpi [OF normalized_diagonal_right]])
     simp_all

text \<open>
  The same start pose with the goal offset mirrored along the global axes instead: the search
  finds no candidate.
\<close>

lemma candidates_diagonal_behind:
  "candidates \<lparr>max_kappa = sqrt 2 / 2, step_size = 2, platform = LP64\<rparr>
     \<lparr>GetX = 0, GetY = 0, GetPhi = pi / 4\<rparr> \<lparr>GetX = - 5, GetY = - 5, GetPhi = - (3 * pi / 4)\<rparr>
   = []"
  by (rule candidates_at_m5_0_mpi [OF normalized_diagonal_behind])

subsection \<open>Mirror symmetry of the families\<close>

lemma totals_blocks:
  "total_length ` set (concat (map (block_paths rs) bs)) =
     {l. (True, l) \<in> block_key rs ` set bs}"
proof -
  have one: "total_length ` set (block_paths rs b) = {l. (True, l) = block_key rs b}" for b
    by (cases b) (auto simp: assembled_def take_map)
  have "total_length ` set (concat (map (block_paths rs) bs)) =
          (\<Union>b \<in> set bs. total_length ` set (block_paths rs b))"
    by (simp add: image_UN)
  also have "\<dots> = {l. (True, l) \<in> block_key rs ` set bs}"
    unfolding one by auto
  finally show ?thesis .
qed

lemma SCS_mirror:
  "block_key rs ` set (SCS_blocks x (- y) (- phi)) = block_key rs ` set (SCS_blocks x y phi)"
  by (simp add: SCS_blocks_def Let_def insert_commute)

lemma CSC_mirror:
  "block_key rs ` set (CSC_blocks x (- y) (- phi)) = block_key rs ` set (CSC_blocks x y phi)"
  by (simp add: CSC_blocks_def Let_def insert_commute)

lemma CCC_mirror:
  "block_key rs ` set (CCC_blocks x (- y) (- phi)) = block_key rs ` set (CCC_blocks x y phi)"
  by (simp add: CCC_blocks_def Let_def insert_commute)

lemma CCCC_mirror:
  "block_key rs ` set (CCCC_blocks x (- y) (- phi)) = block_key rs ` set (CCCC_blocks x y phi)"
  by (simp add: CCCC_blocks_def Let_def insert_commute)

lemma CCSC_mirror:
  "block_key rs ` set (CCSC_blocks x (- y) (- phi)) = block_key rs ` set (CCSC_blocks x y phi)"
  by (simp add: CCSC_blocks_def Let_def insert_commute)

lemma CCSCC_mirror:
  "block_key rs ` set (CCSCC_blocks x (- y) (- phi)) = block_key rs ` set (CCSCC_blocks x y phi)"
  by (simp add: CCSCC_blocks_def Let_def insert_commute)

lemma all_blocks_mirror:
  "total_length ` set (concat (map (block_paths rs) (all_blocks x (- y) (- phi)))) =
   total_length ` set (concat (map (block_paths rs) (all_blocks x y phi)))"
  by (simp only: totals_blocks all_blocks_def set_append image_Un SCS_mirror CSC_mirror
      CCC_mirror CCCC_mirror CCSC_mirror CCSCC_mirror)

lemma goal_offset_pose_at_offset: "goal_offset s (pose_at_offset s offset) = offset"
proof -
  obtain gx gy gphi where o: "offset = (gx, gy, gphi)" by (cases offset) auto
  let ?c = "cos (GetPhi s)" and ?s = "sin (GetPhi s)"
  have e: "?c * ?c + ?s * ?s = 1" by (rule sin_cos_squared_add3)
  have "?c * (?c * gx - ?s * gy) + ?s * (?s * gx + ?c * gy) = gx"
    using e by algebra
  moreover have "- ?s * (?c * gx - ?s * gy) + ?c * (?s * gx + ?c * gy) = gy"
    using e by algebra
  ultimately show ?thesis
    by (simp add: goal_offset_def pose_at_offset_def o Let_def)
qed

lemma goal_offset_mirror_goal:
  "goal_offset s (mirror_goal s g) =
     (case goal_offset s g of (gx, gy, gphi) \<Rightarrow> (gx, - gy, - gphi))"
  by (cases "goal_offset s g") (simp add: mirror_goal_def goal_offset_pose_at_offset)

lemma normalized_goal_offset:
  "normalized rs s g =
     (case goal_offset s g of (gx, gy, gphi) \<Rightarrow> (gx * max_kappa rs, gy * max_kappa rs, gphi))"
  by (simp add: normalized_def goal_offset_def Let_def)

lemma normalized_mirror_goal:
  "normalized rs s (mirror_goal s g) =
     (case normalized rs s g of (x, y, phi) \<Rightarrow> (x, - y, - phi))"
  by (cases "goal_offset s g")
     (simp add: normalized_goal_offset goal_offset_mirror_goal)

lemma candidates_mirror_goal:
  "total_length ` set (candidates rs s (mirror_goal s g)) =
   total_length ` set (candidates rs s g)"
  by (cases "normalized rs s g")
     (simp only: candidates_def normalized_mirror_goal prod.case all_blocks_mirror)

section \<open>The claims\<close>

subsection \<open>C1: the assembler and the sum over all segments\<close>

text \<open>
  C1 says that the record appended by \<open>SetRSP\<close> stores all \<open>n\<close> lengths and all
  \<open>n\<close> types (\<open>n\<close> = 3, 4 or 5) and that its total length is the sum of the absolute
  values of all \<open>n\<close> lengths. The code takes \<open>n\<close> from
  \<open>sizeof(lengths) / sizeof(lengths[0])\<close> on a pointer. At the array
  \<open>{\<pi>/2, 3, \<pi>/2}\<close> with the types \<open>"LSL"\<close>, which \<open>CSC\<close> passes for the start
  \<open>(0, 0, 0)\<close> and the goal \<open>(0, 10, \<pi>)\<close> at curvature bound \<open>1/2\<close>, the record holds
  one length, one type, and the total length \<open>\<pi>/2\<close>, which is less than
  \<open>\<pi>/2 + 3 + \<pi>/2\<close>.
\<close>

theorem SetRSP_drops_all_but_first_segment:
  "SetRSP \<lparr>max_kappa = 1 / 2, step_size = 2, platform = LP64\<rparr> [pi / 2, 3, pi / 2] ''LSL'' [] =
     (True, [\<lparr>segs_lengths = [pi / 2], segs_types = ''L'', total_length = pi / 2,
              path_x = [], path_y = [], path_phi = [], path_gear = []\<rparr>]) \<and>
   pi / 2 < \<bar>pi / 2\<bar> + \<bar>3\<bar> + \<bar>pi / 2 :: real\<bar>"
  by (simp add: SetRSP_eq assembled_def lengths_size_LP64 add_pos_pos)

subsection \<open>C2: what the caller of \<open>ShortestRSP\<close> receives\<close>

text \<open>
  C2 says that the path written by a successful \<open>ShortestRSP\<close> carries non-empty sample
  sequences \<open>x\<close>, \<open>y\<close>, \<open>phi\<close> and \<open>gear\<close> and lengths divided by \<open>max_kappa\<close>.
  \<open>GenerateLocalConfigurations\<close> computes both on a copy of each candidate, so the
  collection that is scanned afterwards is the one \<open>GenerateRSP\<close> left. For the start
  \<open>(0, 0, 0)\<close>, the goal \<open>(0, 10, \<pi>)\<close>, curvature bound \<open>1/2\<close> and step size \<open>2\<close>
  the call succeeds, and the path it writes has four empty sample sequences and the length
  \<open>\<pi>/2\<close> of the unit-curvature space, where the metric length is \<open>\<pi>\<close>.
\<close>

theorem ShortestRSP_result_without_samples:
  "ShortestRSP \<lparr>max_kappa = 1 / 2, step_size = 2, platform = LP64\<rparr>
     \<lparr>GetX = 0, GetY = 0, GetPhi = 0\<rparr> \<lparr>GetX = 0, GetY = 10, GetPhi = pi\<rparr> =
   Inr (Some \<lparr>segs_lengths = [pi / 2], segs_types = ''L'', total_length = pi / 2,
              path_x = [], path_y = [], path_phi = [], path_gear = []\<rparr>) \<and>
   pi / 2 / max_kappa \<lparr>max_kappa = 1 / 2, step_size = 2, platform = LP64\<rparr> = pi"
  by (simp add: ShortestRSP_ahead_left arc_record)

subsection \<open>C3: the selector returns the first candidate of minimal total length\<close>

text \<open>
  C3: whenever \<open>ShortestRSP\<close> succeeds, the candidate it returns is an element of the
  generated collection whose total length is at most that of every candidate, and every
  candidate before it in generation order is strictly longer.
\<close>

theorem ShortestRSP_first_minimum:
  assumes "ShortestRSP rs start_node end_node = Inr (Some p)"
  shows "\<exists>i < length (snd (GenerateRSP rs start_node end_node [])).
           p = snd (GenerateRSP rs start_node end_node []) ! i \<and>
           (\<forall>j < length (snd (GenerateRSP rs start_node end_node [])).
              total_length p \<le> total_length (snd (GenerateRSP rs start_node end_node []) ! j)) \<and>
           (\<forall>j < i.
              total_length p < total_length (snd (GenerateRSP rs start_node end_node []) ! j))"
proof -
  let ?ps = "candidates rs start_node end_node"
  from ShortestRSP_success [OF assms] have ne: "?ps \<noteq> []"
    and rd: "read_at ?ps (snd (scan_paths ?ps 0 (None, - 1))) = Inr p" by auto
  from scan_paths_first_minimum [OF ne] obtain i where i: "i < length ?ps"
    "snd (scan_paths ?ps 0 (None, - 1)) = int i"
    "\<forall>j < length ?ps. total_length (?ps ! i) \<le> total_length (?ps ! j)"
    "\<forall>j < i. total_length (?ps ! i) < total_length (?ps ! j)" by blast
  from rd i(1,2) have "p = ?ps ! i" by (simp add: read_at_def)
  with i show ?thesis by (auto simp: GenerateRSP_eq)
qed

theorem ShortestRSP_first_minimum_witness:
  "ShortestRSP \<lparr>max_kappa = 1 / 2, step_size = 2, platform = LP64\<rparr>
     \<lparr>GetX = 0, GetY = 0, GetPhi = 0\<rparr> \<lparr>GetX = 0, GetY = 10, GetPhi = pi\<rparr> =
   Inr (Some (arc CHR ''L'' (pi / 2))) \<and>
   (\<exists>i < length (snd (GenerateRSP \<lparr>max_kappa = 1 / 2, step_size = 2, platform = LP64\<rparr>
                  \<lparr>GetX = 0, GetY = 0, GetPhi = 0\<rparr> \<lparr>GetX = 0, GetY = 10, GetPhi = pi\<rparr> [])).
      arc CHR ''L'' (pi / 2) =
        snd (GenerateRSP \<lparr>max_kappa = 1 / 2, step_size = 2, platform = LP64\<rparr>
               \<lparr>GetX = 0, GetY = 0, GetPhi = 0\<rparr> \<lparr>GetX = 0, GetY = 10, GetPhi = pi\<rparr> []) ! i \<and>
      (\<forall>j < length (snd (GenerateRSP \<lparr>max_kappa = 1 / 2, step_size = 2, platform = LP64\<rparr>
                  \<lparr>GetX = 0, GetY = 0, GetPhi = 0\<rparr> \<lparr>GetX = 0, GetY = 10, GetPhi = pi\<rparr> [])).
         total_length (arc CHR ''L'' (pi / 2))
           \<le> total_length
               (snd (GenerateRSP \<lparr>max_kappa = 1 / 2, step_size = 2, platform = LP64\<rparr>
                  \<lparr>GetX = 0, GetY = 0, GetPhi = 0\<rparr> \<lparr>GetX = 0, GetY = 10, GetPhi = pi\<rparr> []) ! j)) \<and>
      (\<forall>j < i.
         total_length (arc CHR ''L'' (pi / 2))
           < total_length
               (snd (GenerateRSP \<lparr>max_kappa = 1 / 2, step_size = 2, platform = LP64\<rparr>
                  \<lparr>GetX = 0, GetY = 0, GetPhi = 0\<rparr> \<lparr>GetX = 0, GetY = 10, GetPhi = pi\<rparr> []) ! j)))"
  using ShortestRSP_first_minimum [OF ShortestRSP_ahead_left] ShortestRSP_ahead_left by blast

subsection \<open>C4: failure exactly when the search produced no candidate\<close>

text \<open>
  C4: \<open>ShortestRSP\<close> returns \<open>false\<close>, without an exception and without writing a
  path, exactly when the collection that the six families produce is empty; and each of the
  six families returns \<open>true\<close> whatever its solvers decide.
\<close>

theorem ShortestRSP_fails_iff_no_candidate:
  "(ShortestRSP rs start_node end_node = Inr None
      \<longleftrightarrow> snd (GenerateRSP rs start_node end_node []) = []) \<and>
   fst (SCS rs x y phi ps) \<and> fst (CSC rs x y phi ps) \<and> fst (CCC rs x y phi ps) \<and>
   fst (CCCC rs x y phi ps) \<and> fst (CCSC rs x y phi ps) \<and> fst (CCSCC rs x y phi ps)"
proof -
  let ?ps = "candidates rs start_node end_node"
  have "ShortestRSP rs start_node end_node = Inr None \<longleftrightarrow> ?ps = []"
    by (simp add: ShortestRSP_eq split: sum.splits)
  then show ?thesis
    by (simp add: GenerateRSP_eq SCS_def CSC_def CCC_def CCCC_def CCSC_def CCSCC_def
        run_blocks_eq)
qed

theorem ShortestRSP_fails_iff_no_candidate_witness:
  "ShortestRSP \<lparr>max_kappa = sqrt 2 / 2, step_size = 2, platform = LP64\<rparr>
     \<lparr>GetX = 0, GetY = 0, GetPhi = pi / 4\<rparr> \<lparr>GetX = - 5, GetY = - 5, GetPhi = - (3 * pi / 4)\<rparr>
     = Inr None \<and>
   snd (GenerateRSP \<lparr>max_kappa = sqrt 2 / 2, step_size = 2, platform = LP64\<rparr>
     \<lparr>GetX = 0, GetY = 0, GetPhi = pi / 4\<rparr> \<lparr>GetX = - 5, GetY = - 5, GetPhi = - (3 * pi / 4)\<rparr>
     []) = [] \<and>
   ShortestRSP \<lparr>max_kappa = 1 / 2, step_size = 2, platform = LP64\<rparr>
     \<lparr>GetX = 0, GetY = 0, GetPhi = 0\<rparr> \<lparr>GetX = 0, GetY = 10, GetPhi = pi\<rparr> \<noteq> Inr None \<and>
   snd (GenerateRSP \<lparr>max_kappa = 1 / 2, step_size = 2, platform = LP64\<rparr>
     \<lparr>GetX = 0, GetY = 0, GetPhi = 0\<rparr> \<lparr>GetX = 0, GetY = 10, GetPhi = pi\<rparr> []) \<noteq> []"
proof -
  have "snd (GenerateRSP \<lparr>max_kappa = sqrt 2 / 2, step_size = 2, platform = LP64\<rparr>
     \<lparr>GetX = 0, GetY = 0, GetPhi = pi / 4\<rparr> \<lparr>GetX = - 5, GetY = - 5, GetPhi = - (3 * pi / 4)\<rparr>
     []) = []"
    by (simp add: GenerateRSP_eq candidates_diagonal_behind)
  moreover have "ShortestRSP \<lparr>max_kappa = 1 / 2, step_size = 2, platform = LP64\<rparr>
     \<lparr>GetX = 0, GetY = 0, GetPhi = 0\<rparr> \<lparr>GetX = 0, GetY = 10, GetPhi = pi\<rparr> \<noteq> Inr None"
    by (simp add: ShortestRSP_ahead_left)
  ultimately show ?thesis
    using ShortestRSP_fails_iff_no_candidate
      [of "\<lparr>max_kappa = sqrt 2 / 2, step_size = 2, platform = LP64\<rparr>"
          "\<lparr>GetX = 0, GetY = 0, GetPhi = pi / 4\<rparr>"
          "\<lparr>GetX = - 5, GetY = - 5, GetPhi = - (3 * pi / 4)\<rparr>"]
      ShortestRSP_fails_iff_no_candidate
      [of "\<lparr>max_kappa = 1 / 2, step_size = 2, platform = LP64\<rparr>"
          "\<lparr>GetX = 0, GetY = 0, GetPhi = 0\<rparr>" "\<lparr>GetX = 0, GetY = 10, GetPhi = pi\<rparr>"]
    by blast
qed

subsection \<open>C5: the eight variants of the three-turn family\<close>


subsection \<open>C6: one interpolated sample\<close>

text \<open>
  C6: a call of \<open>Interpolation\<close> with a subscript inside the four buffers writes, for a
  straight segment, the position \<open>(ox + (pd / max_kappa) cos ophi, oy + (pd / max_kappa) sin
  ophi)\<close> and the heading \<open>ophi\<close>; for a left turn the anchor plus the chord offset
  \<open>(sin pd / max_kappa, (1 - cos pd) / max_kappa)\<close> taken through the matrix
  \<open>((cos a, sin a), (- sin a, cos a))\<close> at \<open>a = - ophi\<close>, and the heading \<open>ophi + pd\<close>;
  for a right turn the same with the second component of the chord offset negated, and the
  heading \<open>ophi - pd\<close>; and the forward flag is true exactly when \<open>pd > 0\<close>. Since
  \<open>cos (- ophi) = cos ophi\<close> and \<open>sin (- ophi) = - sin ophi\<close>, the matrix at \<open>- ophi\<close>
  turns the chord offset counter-clockwise by \<open>ophi\<close>.
\<close>

theorem Interpolation_sample:
  assumes "0 \<le> index" and "index < int (length (px b))" and "index < int (length (py b))"
    and "index < int (length (pphi b))" and "index < int (length (pgear b))"
  shows "\<exists>b'. Interpolation rs index pd m ox oy ophi b = Inr b' \<and>
           pgear b' ! nat index = (0 < pd) \<and>
           (m = CHR ''S'' \<longrightarrow>
              px b' ! nat index = ox + pd / max_kappa rs * cos ophi \<and>
              py b' ! nat index = oy + pd / max_kappa rs * sin ophi \<and>
              pphi b' ! nat index = ophi) \<and>
           (m = CHR ''L'' \<longrightarrow>
              px b' ! nat index = ox + (cos (- ophi) * (sin pd / max_kappa rs)
                                        + sin (- ophi) * ((1 - cos pd) / max_kappa rs)) \<and>
              py b' ! nat index = oy + (- sin (- ophi) * (sin pd / max_kappa rs)
                                        + cos (- ophi) * ((1 - cos pd) / max_kappa rs)) \<and>
              pphi b' ! nat index = ophi + pd) \<and>
           (m = CHR ''R'' \<longrightarrow>
              px b' ! nat index = ox + (cos (- ophi) * (sin pd / max_kappa rs)
                                        + sin (- ophi) * (- ((1 - cos pd) / max_kappa rs))) \<and>
              py b' ! nat index = oy + (- sin (- ophi) * (sin pd / max_kappa rs)
                                        + cos (- ophi) * (- ((1 - cos pd) / max_kappa rs))) \<and>
              pphi b' ! nat index = ophi - pd)"
  using assms
  by (simp add: Interpolation_def bind_err_def assign_at_def Let_def)

theorem Interpolation_sample_witness:
  "(0::int) \<le> 1 \<and>
   1 < int (length (px \<lparr>px = [0, 0, 0], py = [0, 0, 0], pphi = [0, 0, 0],
                         pgear = [True, True, True]\<rparr>)) \<and>
   (\<exists>b'. Interpolation \<lparr>max_kappa = 1, step_size = 1 / 2, platform = LP64\<rparr> 1 (- 2) CHR ''S''
            3 4 0 \<lparr>px = [0, 0, 0], py = [0, 0, 0], pphi = [0, 0, 0],
                   pgear = [True, True, True]\<rparr> = Inr b' \<and>
         px b' ! nat 1 = 1 \<and> py b' ! nat 1 = 4 \<and> pphi b' ! nat 1 = 0 \<and>
         pgear b' ! nat 1 = False) \<and>
   (\<exists>b'. Interpolation \<lparr>max_kappa = 1, step_size = 1 / 2, platform = LP64\<rparr> 1 (pi / 2)
            CHR ''L'' 0 0 (pi / 2) \<lparr>px = [0, 0, 0], py = [0, 0, 0], pphi = [0, 0, 0],
                   pgear = [True, True, True]\<rparr> = Inr b' \<and>
         px b' ! nat 1 = - 1 \<and> py b' ! nat 1 = 1 \<and> pphi b' ! nat 1 = pi \<and>
         pgear b' ! nat 1 = True) \<and>
   (\<exists>b'. Interpolation \<lparr>max_kappa = 1, step_size = 1 / 2, platform = LP64\<rparr> 1 (pi / 2)
            CHR ''R'' 0 0 (pi / 2) \<lparr>px = [0, 0, 0], py = [0, 0, 0], pphi = [0, 0, 0],
                   pgear = [True, True, True]\<rparr> = Inr b' \<and>
         px b' ! nat 1 = 1 \<and> py b' ! nat 1 = 1 \<and> pphi b' ! nat 1 = 0 \<and>
         pgear b' ! nat 1 = True)"
proof -
  let ?rs = "\<lparr>max_kappa = 1, step_size = 1 / 2, platform = LP64\<rparr>"
  let ?b = "\<lparr>px = [0, 0, 0], py = [0, 0, 0], pphi = [0, 0, 0], pgear = [True, True, True]\<rparr>"
  have r: "(0::int) \<le> 1" "1 < int (length (px ?b))" "1 < int (length (py ?b))"
    "1 < int (length (pphi ?b))" "1 < int (length (pgear ?b))" by simp_all
  from Interpolation_sample [OF r, of ?rs "- 2" "CHR ''S''" 3 4 0]
       Interpolation_sample [OF r, of ?rs "pi / 2" "CHR ''L''" 0 0 "pi / 2"]
       Interpolation_sample [OF r, of ?rs "pi / 2" "CHR ''R''" 0 0 "pi / 2"]
  show ?thesis by auto
qed

subsection \<open>C7: the samples that survive the trim\<close>

text \<open>
  C7 says that after the walk and the trim at least two samples remain, the first of them the
  start pose, and that the trim stays inside the buffers. The trim pops while the last \<open>x\<close>
  is \<open>0.0\<close> and has no other exit. For a start pose equal to the goal pose the first
  candidate is a left arc of length zero; all four of its samples have \<open>x = 0\<close>, the trim
  pops all four, the start sample among them, and then calls \<open>back\<close> on an empty vector.
\<close>

theorem trim_pops_every_sample_of_zero_length_path:
  "ShortestRSP \<lparr>max_kappa = 1, step_size = 1 / 2, platform = LP64\<rparr>
     \<lparr>GetX = 0, GetY = 0, GetPhi = 0\<rparr> \<lparr>GetX = 0, GetY = 0, GetPhi = 0\<rparr>
     = Inl UndefinedBehaviour \<and>
   hd (snd (GenerateRSP \<lparr>max_kappa = 1, step_size = 1 / 2, platform = LP64\<rparr>
     \<lparr>GetX = 0, GetY = 0, GetPhi = 0\<rparr> \<lparr>GetX = 0, GetY = 0, GetPhi = 0\<rparr> [])) =
     \<lparr>segs_lengths = [0], segs_types = ''L'', total_length = 0,
      path_x = [], path_y = [], path_phi = [], path_gear = []\<rparr> \<and>
   discretize \<lparr>max_kappa = 1, step_size = 1 / 2, platform = LP64\<rparr>
     \<lparr>GetX = 0, GetY = 0, GetPhi = 0\<rparr>
     \<lparr>segs_lengths = [0], segs_types = ''L'', total_length = 0,
      path_x = [], path_y = [], path_phi = [], path_gear = []\<rparr> = Inl UndefinedBehaviour \<and>
   trim_trailing \<lparr>px = [0, 0, 0, 0], py = [0, 0, 0, 0], pphi = [0, 0, 0, 0],
                  pgear = [False, False, True, True]\<rparr> = Inl UndefinedBehaviour"
proof -
  let ?rs = "\<lparr>max_kappa = 1, step_size = 1 / 2, platform = LP64\<rparr>"
  let ?s = "\<lparr>GetX = 0, GetY = 0, GetPhi = 0\<rparr>"
  obtain rest where c: "candidates ?rs ?s ?s = arc CHR ''L'' 0 # rest"
    using candidates_same_pose [of ?rs ?s] by auto
  have d: "discretize ?rs ?s (arc CHR ''L'' 0) = Inl UndefinedBehaviour"
    by (rule discretize_zero_arc) simp_all
  have "ShortestRSP ?rs ?s ?s = Inl UndefinedBehaviour"
    by (simp add: ShortestRSP_eq c d)
  moreover have "hd (snd (GenerateRSP ?rs ?s ?s [])) = arc CHR ''L'' 0"
    by (simp add: GenerateRSP_eq c)
  ultimately show ?thesis
    using d by (simp add: arc_record trim_trailing_4_zero)
qed

subsection \<open>C8: the mirrored goal\<close>

text \<open>
  C8: for every start pose and every goal, with the offset \<open>(gx, gy, gphi)\<close> of the goal
  taken in the frame of the start pose, where \<open>GenerateRSP\<close> normalizes it and the families
  apply their mirror variants: the goal of offset \<open>(gx, - gy, - gphi)\<close> gives the search the
  same set of candidate total lengths, each candidate of one search having a candidate of equal
  total length in the other; one search fails exactly when the other does; and when both
  succeed the two returned minimal total lengths are equal.
\<close>

theorem mirrored_goal_same_lengths:
  "goal_offset start_node (mirror_goal start_node end_node) =
     (case goal_offset start_node end_node of (gx, gy, gphi) \<Rightarrow> (gx, - gy, - gphi)) \<and>
   total_length ` set (snd (GenerateRSP rs start_node (mirror_goal start_node end_node) [])) =
     total_length ` set (snd (GenerateRSP rs start_node end_node [])) \<and>
   (ShortestRSP rs start_node (mirror_goal start_node end_node) = Inr None
      \<longleftrightarrow> ShortestRSP rs start_node end_node = Inr None) \<and>
   (ShortestRSP rs start_node end_node = Inr (Some p) \<longrightarrow>
    ShortestRSP rs start_node (mirror_goal start_node end_node) = Inr (Some p') \<longrightarrow>
    total_length p' = total_length p)"
proof -
  let ?c = "candidates rs start_node end_node"
  let ?c' = "candidates rs start_node (mirror_goal start_node end_node)"
  have eq: "total_length ` set ?c' = total_length ` set ?c"
    by (rule candidates_mirror_goal)
  then have empty: "?c' = [] \<longleftrightarrow> ?c = []"
    by (metis image_is_empty set_empty)
  have fail: "ShortestRSP rs start_node (mirror_goal start_node end_node) = Inr None
            \<longleftrightarrow> ShortestRSP rs start_node end_node = Inr None"
    using empty by (simp add: ShortestRSP_eq split: sum.splits)
  have same: "total_length p' = total_length p"
    if p: "ShortestRSP rs start_node end_node = Inr (Some p)"
    and p': "ShortestRSP rs start_node (mirror_goal start_node end_node) = Inr (Some p')"
  proof -
    from ShortestRSP_minimal [OF p] have 1: "total_length p \<in> total_length ` set ?c"
      "\<forall>l \<in> total_length ` set ?c. total_length p \<le> l" by auto
    from ShortestRSP_minimal [OF p'] have 2: "total_length p' \<in> total_length ` set ?c'"
      "\<forall>l \<in> total_length ` set ?c'. total_length p' \<le> l" by auto
    from 1 2 eq have "total_length p \<le> total_length p'" "total_length p' \<le> total_length p"
      by auto
    then show ?thesis by simp
  qed
  from eq fail same show ?thesis
    by (simp add: GenerateRSP_eq goal_offset_mirror_goal)
qed

text \<open>
  Two instances: a start heading \<open>0\<close>, where the mirrored goal is the goal of offset
  \<open>(gx, - gy, - gphi)\<close> along the global axes, and a start heading \<open>\<pi>/4\<close>, where the goal
  \<open>(-5, 5)\<close> is mirrored to \<open>(5, -5)\<close>. In both, the search for the goal returns a left arc
  and the search for the mirrored goal a right arc of the same total length \<open>\<pi>/2\<close>.
\<close>

theorem mirrored_goal_same_lengths_witness:
  "mirror_goal \<lparr>GetX = 0, GetY = 0, GetPhi = 0\<rparr> \<lparr>GetX = 0, GetY = 10, GetPhi = pi\<rparr> =
     \<lparr>GetX = 0, GetY = - 10, GetPhi = - pi\<rparr> \<and>
   ShortestRSP \<lparr>max_kappa = 1 / 2, step_size = 2, platform = LP64\<rparr>
     \<lparr>GetX = 0, GetY = 0, GetPhi = 0\<rparr> \<lparr>GetX = 0, GetY = 10, GetPhi = pi\<rparr> =
     Inr (Some (arc CHR ''L'' (pi / 2))) \<and>
   ShortestRSP \<lparr>max_kappa = 1 / 2, step_size = 2, platform = LP64\<rparr>
     \<lparr>GetX = 0, GetY = 0, GetPhi = 0\<rparr> \<lparr>GetX = 0, GetY = - 10, GetPhi = - pi\<rparr> =
     Inr (Some (arc CHR ''R'' (pi / 2))) \<and>
   mirror_goal \<lparr>GetX = 0, GetY = 0, GetPhi = pi / 4\<rparr>
     \<lparr>GetX = - 5, GetY = 5, GetPhi = 5 * pi / 4\<rparr> =
     \<lparr>GetX = 5, GetY = - 5, GetPhi = - (3 * pi / 4)\<rparr> \<and>
   ShortestRSP \<lparr>max_kappa = sqrt 2 / 2, step_size = 2, platform = LP64\<rparr>
     \<lparr>GetX = 0, GetY = 0, GetPhi = pi / 4\<rparr> \<lparr>GetX = - 5, GetY = 5, GetPhi = 5 * pi / 4\<rparr> =
     Inr (Some (arc CHR ''L'' (pi / 2))) \<and>
   ShortestRSP \<lparr>max_kappa = sqrt 2 / 2, step_size = 2, platform = LP64\<rparr>
     \<lparr>GetX = 0, GetY = 0, GetPhi = pi / 4\<rparr> \<lparr>GetX = 5, GetY = - 5, GetPhi = - (3 * pi / 4)\<rparr> =
     Inr (Some (arc CHR ''R'' (pi / 2))) \<and>
   total_length (arc CHR ''R'' (pi / 2)) = total_length (arc CHR ''L'' (pi / 2)) \<and>
   total_length ` set (snd (GenerateRSP \<lparr>max_kappa = 1 / 2, step_size = 2, platform = LP64\<rparr>
     \<lparr>GetX = 0, GetY = 0, GetPhi = 0\<rparr> \<lparr>GetX = 0, GetY = - 10, GetPhi = - pi\<rparr> [])) =
   total_length ` set (snd (GenerateRSP \<lparr>max_kappa = 1 / 2, step_size = 2, platform = LP64\<rparr>
     \<lparr>GetX = 0, GetY = 0, GetPhi = 0\<rparr> \<lparr>GetX = 0, GetY = 10, GetPhi = pi\<rparr> [])) \<and>
   total_length ` set (snd (GenerateRSP
     \<lparr>max_kappa = sqrt 2 / 2, step_size = 2, platform = LP64\<rparr>
     \<lparr>GetX = 0, GetY = 0, GetPhi = pi / 4\<rparr> \<lparr>GetX = 5, GetY = - 5, GetPhi = - (3 * pi / 4)\<rparr> [])) =
   total_length ` set (snd (GenerateRSP
     \<lparr>max_kappa = sqrt 2 / 2, step_size = 2, platform = LP64\<rparr>
     \<lparr>GetX = 0, GetY = 0, GetPhi = pi / 4\<rparr> \<lparr>GetX = - 5, GetY = 5, GetPhi = 5 * pi / 4\<rparr> []))"
proof -
  have a: "mirror_goal \<lparr>GetX = 0, GetY = 0, GetPhi = 0\<rparr> \<lparr>GetX = 0, GetY = 10, GetPhi = pi\<rparr> =
     \<lparr>GetX = 0, GetY = - 10, GetPhi = - pi\<rparr>"
    by (simp add: mirror_goal_def goal_offset_def pose_at_offset_def Let_def)
  note d = mirror_goal_diagonal
  from mirrored_goal_same_lengths
      [of "\<lparr>GetX = 0, GetY = 0, GetPhi = 0\<rparr>" "\<lparr>GetX = 0, GetY = 10, GetPhi = pi\<rparr>"
          "\<lparr>max_kappa = 1 / 2, step_size = 2, platform = LP64\<rparr>"
          "arc CHR ''L'' (pi / 2)" "arc CHR ''R'' (pi / 2)"]
    mirrored_goal_same_lengths
      [of "\<lparr>GetX = 0, GetY = 0, GetPhi = pi / 4\<rparr>"
          "\<lparr>GetX = - 5, GetY = 5, GetPhi = 5 * pi / 4\<rparr>"
          "\<lparr>max_kappa = sqrt 2 / 2, step_size = 2, platform = LP64\<rparr>"
          "arc CHR ''L'' (pi / 2)" "arc CHR ''R'' (pi / 2)"]
    ShortestRSP_ahead_left ShortestRSP_ahead_right [unfolded a]
    ShortestRSP_diagonal ShortestRSP_diagonal_right a d
  show ?thesis unfolding a d by blast
qed

subsection \<open>C9: one segment per record\<close>

text \<open>
  C9: where \<open>sizeof(double*)\<close> equals \<open>sizeof(double)\<close>, the record appended by
  \<open>SetRSP\<close> has exactly one length and one type, the first of each array, whatever the
  number of segments supplied, and its total length is the absolute value of the first length.
\<close>

theorem SetRSP_stores_one_segment:
  assumes "sizeof_double_ptr (platform rs) = sizeof_double"
    and "lengths \<noteq> []" and "types \<noteq> []"
  shows "\<exists>path. SetRSP rs lengths types all_possible_paths = (True, all_possible_paths @ [path]) \<and>
           length (segs_lengths path) = 1 \<and> length (segs_types path) = 1 \<and>
           segs_lengths path = [hd lengths] \<and> segs_types path = [hd types] \<and>
           total_length path = \<bar>hd lengths\<bar>"
proof -
  from assms(1) have n: "lengths_size rs = 1"
    by (simp add: lengths_size_def sizeof_double_def)
  from assms(2,3) obtain l ls c cs where "lengths = l # ls" "types = c # cs"
    by (cases lengths; cases types) auto
  then show ?thesis by (simp add: SetRSP_eq assembled_def n)
qed

theorem SetRSP_stores_one_segment_witness:
  "sizeof_double_ptr (platform \<lparr>max_kappa = 1, step_size = 1 / 2, platform = LP64\<rparr>) = sizeof_double \<and>
   [1, - (pi / 2), - 2, - (pi / 2), 3 :: real] \<noteq> [] \<and> ''LRSLR'' \<noteq> [] \<and>
   (\<exists>path. SetRSP \<lparr>max_kappa = 1, step_size = 1 / 2, platform = LP64\<rparr>
              [1, - (pi / 2), - 2, - (pi / 2), 3] ''LRSLR'' [] = (True, [] @ [path]) \<and>
           length (segs_lengths path) = 1 \<and> length (segs_types path) = 1 \<and>
           segs_lengths path = [hd [1, - (pi / 2), - 2, - (pi / 2), 3]] \<and>
           segs_types path = [hd ''LRSLR''] \<and>
           total_length path = \<bar>hd [1, - (pi / 2), - 2, - (pi / 2), 3]\<bar>)"
proof -
  have 1: "sizeof_double_ptr (platform \<lparr>max_kappa = 1, step_size = 1 / 2, platform = LP64\<rparr>)
             = sizeof_double"
    by (simp add: sizeof_double_def)
  have 2: "[1, - (pi / 2), - 2, - (pi / 2), 3 :: real] \<noteq> []" by simp
  have 3: "''LRSLR'' \<noteq> []" by simp
  from SetRSP_stores_one_segment [OF 1 2 3, of "[]"] 1 2 3 show ?thesis by blast
qed

subsection \<open>C10: the four-turn solvers return \<open>t = v = 0\<close>\<close>

text \<open>
  C10: whenever \<open>LRLRn\<close> or \<open>LRLRp\<close> reports a valid result, the returned \<open>t\<close> and
  \<open>v\<close> are both \<open>0\<close>: the pair of \<open>calc_tau_omega\<close> enters the validity test only,
  and \<open>u\<close> alone carries a computed value.
\<close>

theorem four_turn_t_v_zero:
  "(flag (LRLRn x y phi RSPParam_default) \<longrightarrow>
      param_t (LRLRn x y phi RSPParam_default) = 0 \<and>
      param_v (LRLRn x y phi RSPParam_default) = 0 \<and>
      param_u (LRLRn x y phi RSPParam_default) =
        arccos (0.25 * (2 + sqrt ((x + sin phi) * (x + sin phi)
                                   + (y - 1 - cos phi) * (y - 1 - cos phi))))) \<and>
   (flag (LRLRp x y phi RSPParam_default) \<longrightarrow>
      param_t (LRLRp x y phi RSPParam_default) = 0 \<and>
      param_v (LRLRp x y phi RSPParam_default) = 0 \<and>
      param_u (LRLRp x y phi RSPParam_default) =
        - arccos ((20 - (x + sin phi) * (x + sin phi)
                      - (y - 1 - cos phi) * (y - 1 - cos phi)) / 16))"
  by (simp add: LRLRn_def LRLRp_def Let_def RSPParam_default_def)

text \<open>
  Two valid results where \<open>tau\<close> and \<open>omega\<close> are not zero: \<open>LRLRn\<close> at
  \<open>(3/5, 6/5, 0)\<close>, with \<open>tau = arctan (3/4)\<close>, \<open>omega = arctan (3/4) - arccos (3/4)\<close>
  and \<open>u = arccos (3/4)\<close>, and \<open>LRLRp\<close> at \<open>(2, -2, 0)\<close>, with \<open>tau = arctan (1/2)\<close>,
  \<open>omega = arctan (1/2) + \<pi>/2\<close> and \<open>u = - \<pi>/2\<close>.
\<close>

theorem four_turn_t_v_zero_witness:
  "flag (LRLRn (3 / 5) (6 / 5) 0 RSPParam_default) \<and>
   calc_tau_omega (arccos (3 / 4)) 0 (3 / 5) (- (4 / 5)) 0 =
     (arctan (3 / 4), arctan (3 / 4) - arccos (3 / 4)) \<and>
   0 < arctan (3 / 4 :: real) \<and> arctan (3 / 4) - arccos (3 / 4 :: real) < 0 \<and>
   param_t (LRLRn (3 / 5) (6 / 5) 0 RSPParam_default) = 0 \<and>
   param_v (LRLRn (3 / 5) (6 / 5) 0 RSPParam_default) = 0 \<and>
   param_u (LRLRn (3 / 5) (6 / 5) 0 RSPParam_default) = arccos (3 / 4) \<and>
   0 < arccos (3 / 4 :: real) \<and>
   flag (LRLRp 2 (- 2) 0 RSPParam_default) \<and>
   calc_tau_omega (- (pi / 2)) 0 2 (- 4) 0 = (arctan (1 / 2), arctan (1 / 2) + pi / 2) \<and>
   0 < arctan (1 / 2 :: real) \<and>
   param_t (LRLRp 2 (- 2) 0 RSPParam_default) = 0 \<and>
   param_v (LRLRp 2 (- 2) 0 RSPParam_default) = 0 \<and>
   param_u (LRLRp 2 (- 2) 0 RSPParam_default) = - (pi / 2)"
proof -
  have n: "flag (LRLRn (3 / 5) (6 / 5) 0 RSPParam_default)"
    and nu: "param_u (LRLRn (3 / 5) (6 / 5) 0 RSPParam_default) = arccos (3 / 4)"
    by (simp_all add: LRLRn_example)
  have p: "flag (LRLRp 2 (- 2) 0 RSPParam_default)"
    and pu: "param_u (LRLRp 2 (- 2) 0 RSPParam_default) = - (pi / 2)"
    by (simp_all add: LRLRp_example)
  from four_turn_t_v_zero [of "3 / 5" "6 / 5" 0] n
  have 1: "param_t (LRLRn (3 / 5) (6 / 5) 0 RSPParam_default) = 0"
    "param_v (LRLRn (3 / 5) (6 / 5) 0 RSPParam_default) = 0" by blast+
  from four_turn_t_v_zero [of 2 "- 2" 0] p
  have 2: "param_t (LRLRp 2 (- 2) 0 RSPParam_default) = 0"
    "param_v (LRLRp 2 (- 2) 0 RSPParam_default) = 0" by blast+
  show ?thesis
    using n nu p pu 1 2 calc_tau_omega_n calc_tau_omega_p arctan_3_4 arccos_3_4 arctan_half
    by simp
qed

end
